theory Spec2Isabelle
  imports Complex_Main
begin

section \<open>Strings and numbers of the host language\<close>

text \<open>
  A JavaScript string is modelled as a \<open>string\<close>; the operations used by
  \<^verbatim>\<open>inputs.ts\<close> are \<^verbatim>\<open>String.prototype.replace\<close> with a string pattern (the
  first occurrence of the pattern is replaced) and \<^verbatim>\<open>slice(0, n)\<close> (which is
  \<open>take n\<close>).  A string is truthy exactly when it is not empty.
\<close>

fun String_replace :: "string \<Rightarrow> string \<Rightarrow> string \<Rightarrow> string" where
  "String_replace pat rep [] = (if pat = [] then rep else [])"
| "String_replace pat rep (c # cs) =
     (if take (length pat) (c # cs) = pat then rep @ drop (length pat) (c # cs)
      else c # String_replace pat rep cs)"

definition truthy :: "string \<Rightarrow> bool" where
  "truthy s = (s \<noteq> [])"

text \<open>
  The numeric fields of a property shape (\<^verbatim>\<open>minCount\<close>, \<^verbatim>\<open>minLength\<close>,
  \<^verbatim>\<open>minInclusive\<close>, ...) are JavaScript numbers.  They are modelled as \<open>int\<close>:
  the integer-valued numbers in the range where \<^verbatim>\<open>+ 1\<close> and \<^verbatim>\<open>- 1\<close> are exact.
  Such a number is truthy exactly when it is not \<open>0\<close>.  \<^verbatim>\<open>String(n)\<close> is its decimal
  rendering.  The model covers the integers of magnitude below 2 to the power 53; it says nothing
  about a property with other numbers.
\<close>

definition truthy_number :: "int option \<Rightarrow> bool" where
  "truthy_number n = (case n of None \<Rightarrow> False | Some k \<Rightarrow> k \<noteq> 0)"

function String_of_nat :: "nat \<Rightarrow> string" where
  "String_of_nat n =
     (if n < 10 then [''0123456789'' ! n]
      else String_of_nat (n div 10) @ [''0123456789'' ! (n mod 10)])"
  by pat_completeness auto
termination
  by (relation "measure id") auto

declare String_of_nat.simps [simp del]

definition String_of_number :: "int \<Rightarrow> string" where
  "String_of_number k = (if k < 0 then CHR ''-'' # String_of_nat (nat (- k)) else String_of_nat (nat k))"

text \<open>
  The conversion of a number to the 32-bit integer type of a reflecting property of
  the DOM wraps around.
\<close>

definition ToInt32 :: "int \<Rightarrow> int" where
  "ToInt32 k = (k + 2147483648) mod 4294967296 - 2147483648"

subsection \<open>parseFloat\<close>

text \<open>
  A value of the type Number is not-a-number, an infinity, or a finite double, given
  by the rational number it denotes.  The arithmetic of doubles is not modelled: the
  rounding of a decimal literal to a double and the rendering of a finite double as a
  string are operations of the host, taken as parameters.
\<close>

datatype number = NaN | PosInfinity | NegInfinity | Finite rat

record float_ops =
  roundToDouble :: "rat \<Rightarrow> number"
  Number_toString_finite :: "rat \<Rightarrow> string"

definition Number_toString :: "float_ops \<Rightarrow> number \<Rightarrow> string" where
  "Number_toString ops n =
     (case n of
        NaN \<Rightarrow> ''NaN''
      | PosInfinity \<Rightarrow> ''Infinity''
      | NegInfinity \<Rightarrow> ''-Infinity''
      | Finite r \<Rightarrow> Number_toString_finite ops r)"

text \<open>
  \<^verbatim>\<open>parseFloat\<close> skips leading white space and reads the longest prefix that is a
  decimal literal: an optional sign, then \<^verbatim>\<open>Infinity\<close> or digits with an optional
  fraction and an optional exponent.  Without such a prefix the result is not-a-number.
  Of the white space characters, those with a code below 256 are modelled.
\<close>

definition isWhiteSpace :: "char \<Rightarrow> bool" where
  "isWhiteSpace ch = (of_char ch \<in> {9, 10, 11, 12, 13, 32, 160 :: nat})"

definition isDigit :: "char \<Rightarrow> bool" where
  "isDigit ch = (ch \<in> set ''0123456789'')"

definition digit_value :: "char \<Rightarrow> nat" where
  "digit_value ch = of_char ch - 48"

definition digits_value :: "string \<Rightarrow> nat" where
  "digits_value ds = foldl (\<lambda>acc ch. 10 * acc + digit_value ch) 0 ds"

datatype StrDecimalLiteral =
    InfinityLiteral bool
  | DecimalLiteral bool string string int

text \<open>
  The exponent part at the start of a string: \<^verbatim>\<open>e\<close> or \<^verbatim>\<open>E\<close>, an optional sign and
  at least one digit; \<open>0\<close> when the string does not start with one.
\<close>

definition exponent_part :: "string \<Rightarrow> int" where
  "exponent_part s =
     (case s of
        [] \<Rightarrow> 0
      | e # r \<Rightarrow>
          if e = CHR ''e'' \<or> e = CHR ''E''
          then (case r of
                  [] \<Rightarrow> 0
                | sg # r' \<Rightarrow>
                    if sg = CHR ''-'' then - int (digits_value (takeWhile isDigit r'))
                    else if sg = CHR ''+'' then int (digits_value (takeWhile isDigit r'))
                    else int (digits_value (takeWhile isDigit r)))
          else 0)"

definition unsigned_prefix :: "bool \<Rightarrow> string \<Rightarrow> StrDecimalLiteral option" where
  "unsigned_prefix neg u =
     (if take 8 u = ''Infinity'' then Some (InfinityLiteral neg)
      else
        (let ip = takeWhile isDigit u;
             r1 = dropWhile isDigit u;
             fp = (case r1 of [] \<Rightarrow> []
                   | d # r \<Rightarrow> if d = CHR ''.'' then takeWhile isDigit r else []);
             r2 = (case r1 of [] \<Rightarrow> []
                   | d # r \<Rightarrow> if d = CHR ''.'' then dropWhile isDigit r else r1)
         in if ip = [] \<and> fp = [] then None
            else Some (DecimalLiteral neg ip fp (exponent_part r2))))"

definition StrDecimalLiteral_prefix :: "string \<Rightarrow> StrDecimalLiteral option" where
  "StrDecimalLiteral_prefix t =
     (case t of
        [] \<Rightarrow> None
      | sg # r \<Rightarrow>
          if sg = CHR ''-'' then unsigned_prefix True r
          else if sg = CHR ''+'' then unsigned_prefix False r
          else unsigned_prefix False t)"

definition literal_value :: "bool \<Rightarrow> string \<Rightarrow> string \<Rightarrow> int \<Rightarrow> rat" where
  "literal_value neg ip fp ex =
     (let m = of_nat (digits_value (ip @ fp)) :: rat;
          k = ex - int (length fp);
          v = (if 0 \<le> k then m * 10 ^ nat k else m / 10 ^ nat (- k))
      in if neg then - v else v)"

definition parseFloat :: "float_ops \<Rightarrow> string \<Rightarrow> number" where
  "parseFloat ops s =
     (case StrDecimalLiteral_prefix (dropWhile isWhiteSpace s) of
        None \<Rightarrow> NaN
      | Some (InfinityLiteral neg) \<Rightarrow> (if neg then NegInfinity else PosInfinity)
      | Some (DecimalLiteral neg ip fp ex) \<Rightarrow> roundToDouble ops (literal_value neg ip fp ex))"

subsection \<open>Date\<close>

text \<open>
  A \<^verbatim>\<open>Date\<close> holds a time value: the milliseconds since the epoch, or none for
  an invalid date.  \<^verbatim>\<open>new Date(string)\<close> parses a string to a time value; the
  parser of the host is a parameter of the model (\<open>string \<Rightarrow> int option\<close>).
  \<^verbatim>\<open>toISOString\<close> throws a \<^verbatim>\<open>RangeError\<close> for an invalid date and otherwise
  renders the time value in UTC as \<^verbatim>\<open>YYYY-MM-DDTHH:mm:ss.sssZ\<close>, with a sign and six
  digits for a year outside 0 to 9999.  The exceptions of the model are this one, the
  \<^verbatim>\<open>IndexSizeError\<close> of the DOM and the \<^verbatim>\<open>TypeError\<close> of the language.
\<close>

datatype error = RangeError | IndexSizeError | TypeError

definition pad :: "nat \<Rightarrow> nat \<Rightarrow> string" where
  "pad w n = replicate (w - length (String_of_nat n)) (CHR ''0'') @ String_of_nat n"

text \<open>The civil date (year, month, day) of a day number, counted from 1970-01-01.\<close>

definition civil_from_days :: "int \<Rightarrow> int \<times> int \<times> int" where
  "civil_from_days z0 =
     (let z = z0 + 719468;
          era = z div 146097;
          doe = z - era * 146097;
          yoe = (doe - doe div 1460 + doe div 36524 - doe div 146096) div 365;
          doy = doe - (365 * yoe + yoe div 4 - yoe div 100);
          mp = (5 * doy + 2) div 153;
          d = doy - (153 * mp + 2) div 5 + 1;
          m = (if mp < 10 then mp + 3 else mp - 9);
          y = yoe + era * 400 + (if m \<le> 2 then 1 else 0)
      in (y, m, d))"

definition days_from_civil :: "int \<Rightarrow> int \<Rightarrow> int \<Rightarrow> int" where
  "days_from_civil y0 m d =
     (let y = (if m \<le> 2 then y0 - 1 else y0);
          era = y div 400;
          yoe = y - era * 400;
          doy = (153 * (if 2 < m then m - 3 else m + 9) + 2) div 5 + d - 1;
          doe = yoe * 365 + yoe div 4 - yoe div 100 + doy
      in era * 146097 + doe - 719468)"

definition msPerDay :: int where
  "msPerDay = 86400000"

definition year_string :: "int \<Rightarrow> string" where
  "year_string y =
     (if 0 \<le> y \<and> y \<le> 9999 then pad 4 (nat y)
      else (if y < 0 then CHR ''-'' else CHR ''+'') # pad 6 (nat \<bar>y\<bar>))"

definition ISO_string :: "int \<Rightarrow> string" where
  "ISO_string t =
     (let (y, m, d) = civil_from_days (t div msPerDay);
          ms = t mod msPerDay
      in year_string y @ ''-'' @ pad 2 (nat m) @ ''-'' @ pad 2 (nat d) @ ''T''
         @ pad 2 (nat (ms div 3600000)) @ '':'' @ pad 2 (nat (ms div 60000 mod 60)) @ '':''
         @ pad 2 (nat (ms div 1000 mod 60)) @ ''.'' @ pad 3 (nat (ms mod 1000)) @ ''Z'')"

text \<open>
  The time value of \<^verbatim>\<open>new Date(string)\<close>: what the parser returns, when it is within
  the range of time values, and none otherwise.
\<close>

definition TimeClip :: "int option \<Rightarrow> int option" where
  "TimeClip tv =
     (case tv of
        None \<Rightarrow> None
      | Some t \<Rightarrow> if \<bar>t\<bar> \<le> 8640000000000000 then Some t else None)"

definition new_Date :: "(string \<Rightarrow> int option) \<Rightarrow> string \<Rightarrow> int option" where
  "new_Date Date_parse s = TimeClip (Date_parse s)"

definition Date_toISOString :: "int option \<Rightarrow> error + string" where
  "Date_toISOString tv = (case tv of None \<Rightarrow> Inl RangeError | Some t \<Rightarrow> Inr (ISO_string t))"

text \<open>
  A parser for the date-time string format of the language standard, for a host whose
  local time is \<open>tza\<close> milliseconds ahead of UTC: \<^verbatim>\<open>YYYY-MM-DD\<close>, optionally
  followed by \<^verbatim>\<open>THH:mm\<close>, \<^verbatim>\<open>THH:mm:ss\<close> or \<^verbatim>\<open>THH:mm:ss.sss\<close> and then by \<^verbatim>\<open>Z\<close> or
  an offset \<^verbatim>\<open>+HH:mm\<close> or \<^verbatim>\<open>-HH:mm\<close>.  A date without time is a time in UTC; a date
  with a time and without offset is a local time.  Every other string is taken to
  be unrecognizable, an invalid date.
\<close>

definition number_of :: "string \<Rightarrow> nat option" where
  "number_of ds = (if ds \<noteq> [] \<and> list_all isDigit ds then Some (digits_value ds) else None)"

definition days_in_month :: "int \<Rightarrow> int \<Rightarrow> int" where
  "days_in_month y m =
     (if m = 2 then (if y mod 4 = 0 \<and> (y mod 100 \<noteq> 0 \<or> y mod 400 = 0) then 29 else 28)
      else if m \<in> {4, 6, 9, 11} then 30 else 31)"

definition parse_date :: "string \<Rightarrow> int option" where
  "parse_date s =
     (case (number_of (take 4 s), number_of (take 2 (drop 5 s)), number_of (take 2 (drop 8 s))) of
        (Some y, Some m, Some d) \<Rightarrow>
          if length s = 10 \<and> s ! 4 = CHR ''-'' \<and> s ! 7 = CHR ''-'' \<and> 1 \<le> m \<and> m \<le> 12
             \<and> 1 \<le> d \<and> int d \<le> days_in_month (int y) (int m)
          then Some (days_from_civil (int y) (int m) (int d))
          else None
      | _ \<Rightarrow> None)"

definition parse_hm :: "string \<Rightarrow> int option" where
  "parse_hm s =
     (case (number_of (take 2 s), number_of (take 2 (drop 3 s))) of
        (Some h, Some m) \<Rightarrow>
          if length s = 5 \<and> s ! 2 = CHR '':'' \<and> h < 24 \<and> m < 60
          then Some (int h * 3600000 + int m * 60000)
          else None
      | _ \<Rightarrow> None)"

definition parse_offset :: "int \<Rightarrow> string \<Rightarrow> int option" where
  "parse_offset tza s =
     (case s of
        [] \<Rightarrow> Some tza
      | z # r \<Rightarrow>
          if z = CHR ''Z'' then (if r = [] then Some 0 else None)
          else if z = CHR ''+'' then parse_hm r
          else if z = CHR ''-'' then map_option uminus (parse_hm r)
          else None)"

definition parse_seconds :: "string \<Rightarrow> (int \<times> string) option" where
  "parse_seconds s =
     (case s of
        [] \<Rightarrow> Some (0, [])
      | c # r \<Rightarrow>
          if c = CHR '':''
          then (case number_of (take 2 r) of
                  None \<Rightarrow> None
                | Some sec \<Rightarrow>
                    if sec < 60
                    then (case drop 2 r of
                            [] \<Rightarrow> Some (int sec * 1000, [])
                          | d # r' \<Rightarrow>
                              if d = CHR ''.''
                              then (case number_of (take 3 r') of
                                      None \<Rightarrow> None
                                    | Some ms \<Rightarrow>
                                        if length (take 3 r') = 3
                                        then Some (int sec * 1000 + int ms, drop 3 r')
                                        else None)
                              else Some (int sec * 1000, d # r'))
                    else None)
          else Some (0, s))"

definition parse_time :: "int \<Rightarrow> string \<Rightarrow> int option" where
  "parse_time tza s =
     (case s of
        [] \<Rightarrow> None
      | t # r \<Rightarrow>
          if t = CHR ''T''
          then (case (parse_hm (take 5 r), parse_seconds (drop 5 r)) of
                  (Some hm, Some (sec, rest)) \<Rightarrow>
                    map_option (\<lambda>offset. hm + sec - offset) (parse_offset tza rest)
                | _ \<Rightarrow> None)
          else None)"

definition Date_parse_iso :: "int \<Rightarrow> string \<Rightarrow> int option" where
  "Date_parse_iso tza s =
     (case parse_date (take 10 s) of
        None \<Rightarrow> None
      | Some day \<Rightarrow>
          if drop 10 s = [] then Some (day * msPerDay)
          else map_option (\<lambda>ms. day * msPerDay + ms) (parse_time tza (drop 10 s)))"

section \<open>RDF terms and the data factory\<close>

text \<open>
  The terms of \<^verbatim>\<open>@rdfjs/types\<close> as the library \<^verbatim>\<open>n3\<close> implements them.  A
  literal carries its lexical value, its language tag (empty when it has none) and the
  IRI of its datatype.
\<close>

datatype Term =
    NamedNode string
  | BlankNode string
  | Literal string string string
  | Variable string
  | DefaultGraph

fun term_value :: "Term \<Rightarrow> string" where
  "term_value (NamedNode iri) = iri"
| "term_value (BlankNode l) = l"
| "term_value (Literal v lang dt) = v"
| "term_value (Variable n) = n"
| "term_value DefaultGraph = []"

fun term_language :: "Term \<Rightarrow> string" where
  "term_language (Literal v lang dt) = lang"
| "term_language t = []"

fun isLiteral :: "Term \<Rightarrow> bool" where
  "isLiteral (Literal v lang dt) = True"
| "isLiteral t = False"

definition xsd_string :: string where
  "xsd_string = ''http://www.w3.org/2001/XMLSchema#string''"

definition rdf_langString :: string where
  "rdf_langString = ''http://www.w3.org/1999/02/22-rdf-syntax-ns#langString''"

definition toLowerCase :: "string \<Rightarrow> string" where
  "toLowerCase =
     map (\<lambda>c. case map_of (zip ''ABCDEFGHIJKLMNOPQRSTUVWXYZ'' ''abcdefghijklmnopqrstuvwxyz'') c of
                 Some l \<Rightarrow> l | None \<Rightarrow> c)"

text \<open>
  \<^verbatim>\<open>DataFactory.literal(value, languageOrDataType)\<close> for a string value.  The second
  argument is a string (a language tag), a named node (the datatype) or undefined.
  A language tag is stored in lower case; a literal without datatype is an
  \<^verbatim>\<open>xsd:string\<close>.
\<close>

datatype languageOrDataType = Language string | DataType string | Undefined

definition dataTypeArg :: "string option \<Rightarrow> languageOrDataType" where
  "dataTypeArg dt = (case dt of None \<Rightarrow> Undefined | Some iri \<Rightarrow> DataType iri)"

fun DataFactory_literal :: "string \<Rightarrow> languageOrDataType \<Rightarrow> Term" where
  "DataFactory_literal v (Language l) = Literal v (toLowerCase l) rdf_langString"
| "DataFactory_literal v (DataType iri) = Literal v [] (if iri = [] then xsd_string else iri)"
| "DataFactory_literal v Undefined = Literal v [] xsd_string"

text \<open>
  \<^verbatim>\<open>DataFactory.literal\<close> for a number value.  The number is rendered as a string.
  When no datatype is given the factory chooses one: \<^verbatim>\<open>xsd:integer\<close> for an integer,
  \<^verbatim>\<open>xsd:double\<close> otherwise, and an infinity is written \<^verbatim>\<open>INF\<close> or \<^verbatim>\<open>-INF\<close>.
\<close>

definition xsd_integer :: string where
  "xsd_integer = ''http://www.w3.org/2001/XMLSchema#integer''"

definition xsd_double :: string where
  "xsd_double = ''http://www.w3.org/2001/XMLSchema#double''"

definition DataFactory_literal_number :: "float_ops \<Rightarrow> number \<Rightarrow> languageOrDataType \<Rightarrow> Term" where
  "DataFactory_literal_number ops n lod =
     (case lod of
        Language l \<Rightarrow> Literal (Number_toString ops n) (toLowerCase l) rdf_langString
      | DataType iri \<Rightarrow>
          if iri = []
          then (case n of
                  Finite r \<Rightarrow> Literal (Number_toString ops n) []
                               (if snd (quotient_of r) = 1 then xsd_integer else xsd_double)
                | NaN \<Rightarrow> Literal ''NaN'' [] xsd_double
                | PosInfinity \<Rightarrow> Literal ''INF'' [] xsd_double
                | NegInfinity \<Rightarrow> Literal ''-INF'' [] xsd_double)
          else Literal (Number_toString ops n) [] iri
      | Undefined \<Rightarrow>
          (case n of
             Finite r \<Rightarrow> Literal (Number_toString ops n) []
                          (if snd (quotient_of r) = 1 then xsd_integer else xsd_double)
           | NaN \<Rightarrow> Literal ''NaN'' [] xsd_double
           | PosInfinity \<Rightarrow> Literal ''INF'' [] xsd_double
           | NegInfinity \<Rightarrow> Literal ''-INF'' [] xsd_double))"

definition DataFactory_namedNode :: "string \<Rightarrow> Term" where
  "DataFactory_namedNode iri = NamedNode iri"

section \<open>Property shapes and configuration\<close>

text \<open>
  \<^verbatim>\<open>Config\<close> (\<^verbatim>\<open>config.ts\<close>): the inputs read the display language and the lists
  extracted from the shapes graph, a record from list ids to term arrays.
\<close>

record Config =
  language :: "string option"
  lists :: "string \<rightharpoonup> Term list"

text \<open>
  The record of lists is a plain object.  Reading it at a key that it does not hold
  finds the member of that name that every object inherits, if there is one: a
  function, whose \<^verbatim>\<open>length\<close> is the number of its parameters, or for \<^verbatim>\<open>__proto__\<close>
  an object without \<^verbatim>\<open>length\<close>.
\<close>

datatype list_value = TermArray "Term list" | InheritedMember "nat option"

definition Object_prototype :: "(string \<times> nat option) list" where
  "Object_prototype =
     [(''constructor'', Some 1), (''hasOwnProperty'', Some 1), (''isPrototypeOf'', Some 1),
      (''propertyIsEnumerable'', Some 1), (''toLocaleString'', Some 0), (''toString'', Some 0),
      (''valueOf'', Some 0), (''__defineGetter__'', Some 2), (''__defineSetter__'', Some 2),
      (''__lookupGetter__'', Some 1), (''__lookupSetter__'', Some 1), (''__proto__'', None)]"

definition Record_get :: "(string \<rightharpoonup> Term list) \<Rightarrow> string \<Rightarrow> list_value option" where
  "Record_get r key =
     (case r key of
        Some l \<Rightarrow> Some (TermArray l)
      | None \<Rightarrow> map_option InheritedMember (map_of Object_prototype key))"

text \<open>The truthiness of \<^verbatim>\<open>list?.length\<close> for a value that was found.\<close>

definition has_length :: "list_value \<Rightarrow> bool" where
  "has_length lv =
     (case lv of
        TermArray l \<Rightarrow> l \<noteq> []
      | InheritedMember len \<Rightarrow> (case len of None \<Rightarrow> False | Some n \<Rightarrow> n \<noteq> 0))"

text \<open>
  \<^verbatim>\<open>ShaclPropertySpec\<close> is declared in a module that is not among the sources; the
  record has the fields that \<^verbatim>\<open>inputs.ts\<close> reads, with the types it reads them at.
  An optional field is an \<open>option\<close>; a named node is given by its IRI.
\<close>

record ShaclPropertySpec =
  path :: string
  label :: string
  description :: "Term option"
  datatype' :: "string option"
  class' :: "string option"
  nodeKind :: "string option"
  minCount :: "int option"
  maxCount :: "int option"
  minLength :: "int option"
  maxLength :: "int option"
  pattern :: "string option"
  minInclusive :: "int option"
  maxInclusive :: "int option"
  minExclusive :: "int option"
  maxExclusive :: "int option"
  singleLine :: "bool option"
  languageIn :: "Term list option"
  shaclIn :: "string option"
  defaultValue :: "Term option"
  config :: Config

text \<open>
  The constants of \<^verbatim>\<open>constants.ts\<close> (not among the sources) are parameters of
  the model: the namespaces of SHACL, XML Schema and RDF.
\<close>

record constants =
  PREFIX_SHACL :: string
  PREFIX_XSD :: string
  PREFIX_RDF :: string

definition w3c :: constants where
  "w3c = \<lparr> PREFIX_SHACL = ''http://www.w3.org/ns/shacl#'',
           PREFIX_XSD = ''http://www.w3.org/2001/XMLSchema#'',
           PREFIX_RDF = ''http://www.w3.org/1999/02/22-rdf-syntax-ns#'' \<rparr>"

section \<open>The widgets\<close>

text \<open>
  An HTML element is modelled by the state the inputs write and read: its tag, the
  content attributes that the code sets (directly or through the reflecting properties
  \<^verbatim>\<open>type\<close>, \<^verbatim>\<open>rows\<close>, \<^verbatim>\<open>minLength\<close>, \<^verbatim>\<open>maxLength\<close>, \<^verbatim>\<open>pattern\<close>, \<^verbatim>\<open>min\<close>,
  \<^verbatim>\<open>max\<close>, \<^verbatim>\<open>step\<close>, \<^verbatim>\<open>title\<close>, \<^verbatim>\<open>placeholder\<close>), its class list, the value
  of a text control, the checkedness of a checkbox, and the options and the selected
  index of a \<^verbatim>\<open>select\<close>.  The generated element id, the label element and the event
  listener hold no state that \<^verbatim>\<open>setValue\<close> or \<^verbatim>\<open>toRDFObject\<close> read, and are left
  out.  An option of a \<^verbatim>\<open>select\<close> is given by its value and its content; the value of
  an option without a value attribute is its text.
\<close>

record HTMLOption =
  option_value :: string
  innerHTML :: string

record Element =
  tagName :: string
  type_attr :: string
  value_attr :: "string option"
  placeholder_attr :: "string option"
  required_attr :: "string option"
  title_attr :: "string option"
  data_path :: "string option"
  rows_attr :: "int option"
  minlength_attr :: "int option"
  maxlength_attr :: "int option"
  pattern_attr :: "string option"
  min_attr :: "string option"
  max_attr :: "string option"
  step_attr :: "string option"
  classList :: "string list"
  value' :: string
  checked :: bool
  options :: "HTMLOption list"
  selectedIndex :: "nat option"

definition createElement :: "string \<Rightarrow> Element" where
  "createElement tag =
     \<lparr> tagName = tag, type_attr = (if tag = ''input'' then ''text'' else []),
       value_attr = None, placeholder_attr = None, required_attr = None, title_attr = None,
       data_path = None, rows_attr = None, minlength_attr = None, maxlength_attr = None,
       pattern_attr = None, min_attr = None, max_attr = None, step_attr = None,
       classList = [], value' = [], checked = False, options = [], selectedIndex = None \<rparr>"

subsection \<open>Value sanitization\<close>

text \<open>
  A control does not keep every string that is assigned to it.  A single-line text
  control drops line breaks; a text area turns every line break into a line feed; a
  number control keeps a valid floating-point number and becomes empty for any other
  string; a date control keeps a valid date string and a date-time control a valid
  local date and time string, in its normalized form, and both become empty for any
  other string.
\<close>

definition strip_newlines :: "string \<Rightarrow> string" where
  "strip_newlines s = filter (\<lambda>ch. ch \<noteq> CHR 0x0A \<and> ch \<noteq> CHR 0x0D) s"

fun normalize_newlines :: "string \<Rightarrow> string" where
  "normalize_newlines [] = []"
| "normalize_newlines [ch] = [if ch = CHR 0x0D then CHR 0x0A else ch]"
| "normalize_newlines (ch # d # cs) =
     (if ch = CHR 0x0D
      then (if d = CHR 0x0A then CHR 0x0A # normalize_newlines cs
            else CHR 0x0A # normalize_newlines (d # cs))
      else ch # normalize_newlines (d # cs))"

text \<open>
  A valid floating-point number: an optional minus sign; digits, or a dot and digits,
  or both; and optionally an exponent, \<^verbatim>\<open>e\<close> or \<^verbatim>\<open>E\<close> with an optional sign and
  digits.
\<close>

definition valid_exponent :: "string \<Rightarrow> bool" where
  "valid_exponent s =
     (case s of
        [] \<Rightarrow> True
      | e # r \<Rightarrow>
          (e = CHR ''e'' \<or> e = CHR ''E'')
          \<and> (case r of
                [] \<Rightarrow> False
              | sg # r' \<Rightarrow>
                  if sg = CHR ''-'' \<or> sg = CHR ''+'' then r' \<noteq> [] \<and> list_all isDigit r'
                  else list_all isDigit r))"

definition valid_floating_point_number :: "string \<Rightarrow> bool" where
  "valid_floating_point_number s =
     (let u = (case s of [] \<Rightarrow> [] | sg # r \<Rightarrow> if sg = CHR ''-'' then r else s);
          ip = takeWhile isDigit u;
          r1 = dropWhile isDigit u
      in case r1 of
           [] \<Rightarrow> ip \<noteq> []
         | d # r \<Rightarrow>
             if d = CHR ''.''
             then takeWhile isDigit r \<noteq> [] \<and> valid_exponent (dropWhile isDigit r)
             else ip \<noteq> [] \<and> valid_exponent r1)"

text \<open>
  A valid date string: a year of four or more digits that is not zero, a month and a
  day of that month, as \<^verbatim>\<open>YYYY-MM-DD\<close>.
\<close>

definition valid_date_string :: "string \<Rightarrow> bool" where
  "valid_date_string s =
     (let y = takeWhile isDigit s;
          r = dropWhile isDigit s
      in 4 \<le> length y \<and> 0 < digits_value y \<and> length r = 6
         \<and> r ! 0 = CHR ''-'' \<and> r ! 3 = CHR ''-''
         \<and> (case (number_of (take 2 (drop 1 r)), number_of (take 2 (drop 4 r))) of
               (Some m, Some d) \<Rightarrow>
                 1 \<le> m \<and> m \<le> 12 \<and> 1 \<le> d
                 \<and> int d \<le> days_in_month (int (digits_value y)) (int m)
             | _ \<Rightarrow> False))"

text \<open>
  A valid time string is \<^verbatim>\<open>HH:MM\<close>, \<^verbatim>\<open>HH:MM:SS\<close> or \<^verbatim>\<open>HH:MM:SS\<close> with a dot and
  one to three digits.  Its normalized form leaves out a fraction of zero, and the
  seconds too when they are zero as well, and has no zero at the end of a fraction.
\<close>

definition strip_zeros :: "string \<Rightarrow> string" where
  "strip_zeros ds = rev (dropWhile (\<lambda>ch. ch = CHR ''0'') (rev ds))"

definition normalized_time :: "string \<Rightarrow> string option" where
  "normalized_time s =
     (case (number_of (take 2 s), number_of (take 2 (drop 3 s))) of
        (Some h, Some m) \<Rightarrow>
          if 5 \<le> length s \<and> s ! 2 = CHR '':'' \<and> h < 24 \<and> m < 60
          then (case drop 5 s of
                  [] \<Rightarrow> Some (take 5 s)
                | c # r \<Rightarrow>
                    (case number_of (take 2 r) of
                       None \<Rightarrow> None
                     | Some sec \<Rightarrow>
                         if c = CHR '':'' \<and> length (take 2 r) = 2 \<and> sec < 60
                         then (case drop 2 r of
                                 [] \<Rightarrow> Some (if sec = 0 then take 5 s else take 8 s)
                               | d # f \<Rightarrow>
                                   if d = CHR ''.'' \<and> f \<noteq> [] \<and> length f \<le> 3
                                      \<and> list_all isDigit f
                                   then Some (if strip_zeros f \<noteq> []
                                              then take 8 s @ ''.'' @ strip_zeros f
                                              else if sec = 0 then take 5 s else take 8 s)
                                   else None)
                         else None))
          else None
      | _ \<Rightarrow> None)"

text \<open>
  A valid local date and time string is a valid date string, the letter \<^verbatim>\<open>T\<close> or a
  space, and a valid time string; its normalized form has the letter \<^verbatim>\<open>T\<close> and the
  normalized time.
\<close>

definition normalized_local_date_and_time :: "string \<Rightarrow> string option" where
  "normalized_local_date_and_time s =
     (let d = takeWhile (\<lambda>ch. ch \<noteq> CHR ''T'' \<and> ch \<noteq> CHR '' '') s;
          r = dropWhile (\<lambda>ch. ch \<noteq> CHR ''T'' \<and> ch \<noteq> CHR '' '') s
      in case r of
           [] \<Rightarrow> None
         | sep # t \<Rightarrow>
             if valid_date_string d
             then map_option (\<lambda>nt. d @ ''T'' @ nt) (normalized_time t)
             else None)"

definition sanitize :: "Element \<Rightarrow> string \<Rightarrow> string" where
  "sanitize e v =
     (if tagName e = ''textarea'' then normalize_newlines v
      else if tagName e = ''input''
      then (if type_attr e = ''text'' then strip_newlines v
            else if type_attr e = ''number''
                 then (if valid_floating_point_number v then v else [])
            else if type_attr e = ''date'' then (if valid_date_string v then v else [])
            else if type_attr e = ''datetime-local''
                 then (case normalized_local_date_and_time v of None \<Rightarrow> [] | Some n \<Rightarrow> n)
            else v)
      else v)"

subsection \<open>Properties of an element\<close>

text \<open>
  The \<^verbatim>\<open>value\<close> property.  A \<^verbatim>\<open>select\<close> has the value of its selected option, or
  the empty string when none is selected; assigning a value selects the first option
  with that value, or none.  Every other control keeps the assigned string as its
  sanitization leaves it.
\<close>

definition get_value :: "Element \<Rightarrow> string" where
  "get_value e =
     (if tagName e = ''select''
      then (case selectedIndex e of
              None \<Rightarrow> []
            | Some i \<Rightarrow> if i < length (options e) then option_value (options e ! i) else [])
      else value' e)"

fun find_index' :: "('a \<Rightarrow> bool) \<Rightarrow> 'a list \<Rightarrow> nat option" where
  "find_index' P [] = None"
| "find_index' P (x # xs) =
     (if P x then Some 0 else map_option Suc (find_index' P xs))"

definition set_value :: "Element \<Rightarrow> string \<Rightarrow> Element" where
  "set_value e v =
     (if tagName e = ''select''
      then e\<lparr>selectedIndex := find_index' (\<lambda>o'. option_value o' = v) (options e)\<rparr>
      else e\<lparr>value' := sanitize e v\<rparr>)"

text \<open>
  \<^verbatim>\<open>setAttribute('value', v)\<close>: for an \<^verbatim>\<open>input\<close> whose value has not been edited the
  attribute gives the value of the control.
\<close>

definition setAttribute_value :: "Element \<Rightarrow> string \<Rightarrow> Element" where
  "setAttribute_value e v =
     (if tagName e = ''input'' then e\<lparr>value_attr := Some v, value' := sanitize e v\<rparr>
      else e\<lparr>value_attr := Some v\<rparr>)"

text \<open>
  The properties \<^verbatim>\<open>minLength\<close> and \<^verbatim>\<open>maxLength\<close> of an \<^verbatim>\<open>input\<close> and of a
  \<^verbatim>\<open>textarea\<close> take a 32-bit integer and throw an \<^verbatim>\<open>IndexSizeError\<close> when it is
  negative.
\<close>

definition set_minLength :: "Element \<Rightarrow> int \<Rightarrow> error + Element" where
  "set_minLength e k =
     (if ToInt32 k < 0 then Inl IndexSizeError else Inr (e\<lparr>minlength_attr := Some (ToInt32 k)\<rparr>))"

definition set_maxLength :: "Element \<Rightarrow> int \<Rightarrow> error + Element" where
  "set_maxLength e k =
     (if ToInt32 k < 0 then Inl IndexSizeError else Inr (e\<lparr>maxlength_attr := Some (ToInt32 k)\<rparr>))"

text \<open>
  Only an \<^verbatim>\<open>input\<close> has the property \<^verbatim>\<open>pattern\<close>, and only an \<^verbatim>\<open>input\<close> and a
  \<^verbatim>\<open>textarea\<close> have the property \<^verbatim>\<open>placeholder\<close>; on another element the
  assignment sets no attribute.
\<close>

definition set_pattern :: "Element \<Rightarrow> string \<Rightarrow> Element" where
  "set_pattern e pt = (if tagName e = ''input'' then e\<lparr>pattern_attr := Some pt\<rparr> else e)"

definition set_placeholder :: "Element \<Rightarrow> string \<Rightarrow> Element" where
  "set_placeholder e ph =
     (if tagName e = ''input'' \<or> tagName e = ''textarea'' then e\<lparr>placeholder_attr := Some ph\<rparr>
      else e)"

text \<open>
  Adding an option to a \<^verbatim>\<open>select\<close>: when no option is selected, the first one
  becomes the selected one.
\<close>

definition options_add :: "Element \<Rightarrow> HTMLOption \<Rightarrow> Element" where
  "options_add e o' =
     e\<lparr>options := options e @ [o'],
       selectedIndex := (case selectedIndex e of None \<Rightarrow> Some 0 | Some i \<Rightarrow> Some i)\<rparr>"

section \<open>The input classes\<close>

text \<open>
  \<^verbatim>\<open>InputBase\<close> holds the property, the editor element and the flag
  \<^verbatim>\<open>required\<close>; \<^verbatim>\<open>InputLangString\<close> adds the language chooser.  An object of
  one of the six classes is a value of \<open>Input\<close>, tagged with its class.
\<close>

record InputBase =
  property :: ShaclPropertySpec
  editor :: Element
  required :: bool

record InputLangString = InputBase +
  langChooser :: Element

datatype Input =
    InputDate InputBase
  | InputText InputBase
  | InputLangString InputLangString
  | InputBoolean InputBase
  | InputNumber InputBase
  | InputList InputBase

text \<open>
  The constructor of \<^verbatim>\<open>InputBase\<close>, given the element that the subclass's
  \<^verbatim>\<open>createEditor\<close> made.
\<close>

definition InputBase_constructor :: "Element \<Rightarrow> ShaclPropertySpec \<Rightarrow> InputBase" where
  "InputBase_constructor created p =
     (let req = (case minCount p of None \<Rightarrow> False | Some n \<Rightarrow> 0 < n);
          e1 = setAttribute_value created
                 (case defaultValue p of None \<Rightarrow> [] | Some d \<Rightarrow> term_value d);
          e2 = e1\<lparr>classList := classList e1 @ [''editor'', ''form-control'']\<rparr>;
          e3 = e2\<lparr>data_path := Some (path p)\<rparr>;
          placeholder =
            (case description p of
               Some d \<Rightarrow> Some (term_value d)
             | None \<Rightarrow> (case pattern p of
                         Some pt \<Rightarrow> if truthy pt then Some pt else None
                       | None \<Rightarrow> None));
          e4 = (case placeholder of
                  Some ph \<Rightarrow> if truthy ph then e3\<lparr>placeholder_attr := Some ph\<rparr> else e3
                | None \<Rightarrow> e3);
          e5 = (if req then e4\<lparr>required_attr := Some ''true''\<rparr> else e4)
      in \<lparr> property = p, editor = e5, required = req \<rparr>)"

definition InputBase_setValue :: "'a InputBase_scheme \<Rightarrow> Term \<Rightarrow> 'a InputBase_scheme" where
  "InputBase_setValue b t = b\<lparr>editor := set_value (editor b) (term_value t)\<rparr>"

subsection \<open>InputDate\<close>

definition InputDate_createEditor :: "constants \<Rightarrow> ShaclPropertySpec \<Rightarrow> Element" where
  "InputDate_createEditor c p =
     (let input = createElement ''input'';
          input1 = (if datatype' p = Some (PREFIX_XSD c @ ''dateTime'')
                    then input\<lparr>type_attr := ''datetime-local''\<rparr>
                    else input\<lparr>type_attr := ''date''\<rparr>)
      in input1\<lparr>classList := classList input1 @ [''pr-0'']\<rparr>)"

definition new_InputDate :: "constants \<Rightarrow> ShaclPropertySpec \<Rightarrow> InputBase" where
  "new_InputDate c p = InputBase_constructor (InputDate_createEditor c p) p"

text \<open>
  \<^verbatim>\<open>setValue\<close>: the exception of \<^verbatim>\<open>toISOString\<close> leaves the method before the
  editor is written.
\<close>

definition InputDate_setValue ::
  "(string \<Rightarrow> int option) \<Rightarrow> InputBase \<Rightarrow> Term \<Rightarrow> error + InputBase" where
  "InputDate_setValue Date_parse b t =
     (case Date_toISOString (new_Date Date_parse (term_value t)) of
        Inl e \<Rightarrow> Inl e
      | Inr isoDate \<Rightarrow>
          (let isoDate1 = (if type_attr (editor b) = ''datetime-local'' then take 19 isoDate
                           else take 10 isoDate)
           in Inr (InputBase_setValue b
                     (DataFactory_literal isoDate1 (dataTypeArg (datatype' (property b)))))))"

definition InputDate_toRDFObject :: "InputBase \<Rightarrow> Term option" where
  "InputDate_toRDFObject b =
     (if truthy (get_value (editor b))
      then Some (DataFactory_literal (get_value (editor b)) (dataTypeArg (datatype' (property b))))
      else None)"

subsection \<open>InputText\<close>

definition InputText_createEditor :: "ShaclPropertySpec \<Rightarrow> Element" where
  "InputText_createEditor p =
     (if singleLine p = Some False
      then (createElement ''textarea'')\<lparr>rows_attr := Some 5\<rparr>
      else (createElement ''input'')\<lparr>type_attr := ''text''\<rparr>)"

text \<open>
  The constructor assigns the length constraints and the pattern that are truthy, in
  this order; an exception of an assignment leaves the constructor.
\<close>

definition assign_length ::
  "(Element \<Rightarrow> int \<Rightarrow> error + Element) \<Rightarrow> int option \<Rightarrow> Element \<Rightarrow> error + Element" where
  "assign_length setter n e =
     (case n of
        None \<Rightarrow> Inr e
      | Some k \<Rightarrow> if k \<noteq> 0 then setter e k else Inr e)"

definition InputText_constructor :: "ShaclPropertySpec \<Rightarrow> error + InputBase" where
  "InputText_constructor p =
     (let b = InputBase_constructor (InputText_createEditor p) p
      in case assign_length set_minLength (minLength p) (editor b) of
           Inl ex \<Rightarrow> Inl ex
         | Inr input1 \<Rightarrow>
             (case assign_length set_maxLength (maxLength p) input1 of
                Inl ex \<Rightarrow> Inl ex
              | Inr input2 \<Rightarrow>
                  Inr (b\<lparr>editor :=
                           (case pattern p of
                              Some pt \<Rightarrow> if truthy pt then set_pattern input2 pt else input2
                            | None \<Rightarrow> input2)\<rparr>)))"

definition InputText_toRDFObject :: "constants \<Rightarrow> 'a InputBase_scheme \<Rightarrow> Term option" where
  "InputText_toRDFObject c b =
     (if truthy (get_value (editor b))
      then (if class' (property b) \<noteq> None \<or> nodeKind (property b) = Some (PREFIX_SHACL c @ ''IRI'')
            then Some (DataFactory_namedNode (get_value (editor b)))
            else Some (DataFactory_literal (get_value (editor b))
                         (dataTypeArg (datatype' (property b)))))
      else None)"

subsection \<open>InputLangString\<close>

definition createLangChooser :: "ShaclPropertySpec \<Rightarrow> Element" where
  "createLangChooser p =
     (let chooser =
            (case languageIn p of
               None \<Rightarrow> (createElement ''input'')\<lparr>maxlength_attr := Some 5\<rparr>
             | Some langs \<Rightarrow>
                 if langs \<noteq> []
                 then foldl (\<lambda>sel lang. options_add sel
                               \<lparr> option_value = term_value lang, innerHTML = term_value lang \<rparr>)
                        (createElement ''select'') langs
                 else (createElement ''input'')\<lparr>maxlength_attr := Some 5\<rparr>);
          chooser1 = chooser\<lparr>title_attr := Some ''Language of the text''\<rparr>;
          chooser2 = set_placeholder chooser1 ''lang?''
      in chooser2\<lparr>classList := classList chooser2 @ [''lang-chooser'']\<rparr>)"

definition new_InputLangString :: "ShaclPropertySpec \<Rightarrow> error + InputLangString" where
  "new_InputLangString p =
     map_sum id (\<lambda>b. InputBase.extend b (InputLangString.fields (createLangChooser p)))
       (InputText_constructor p)"

definition InputLangString_setValue :: "InputLangString \<Rightarrow> Term \<Rightarrow> InputLangString" where
  "InputLangString_setValue b t =
     (let b1 = InputBase_setValue b t
      in if isLiteral t
         then b1\<lparr>langChooser := set_value (langChooser b1) (term_language t)\<rparr>
         else b1)"

definition InputLangString_toRDFObject :: "InputLangString \<Rightarrow> Term option" where
  "InputLangString_toRDFObject b =
     (if truthy (get_value (editor b))
      then Some (DataFactory_literal (get_value (editor b))
                   (if truthy (get_value (langChooser b))
                    then Language (get_value (langChooser b))
                    else dataTypeArg (datatype' (property b))))
      else None)"

subsection \<open>InputBoolean\<close>

definition InputBoolean_createEditor :: Element where
  "InputBoolean_createEditor =
     (let input = (createElement ''input'')\<lparr>type_attr := ''checkbox''\<rparr>
      in input\<lparr>classList := classList input @ [''ml-0'']\<rparr>)"

definition new_InputBoolean :: "ShaclPropertySpec \<Rightarrow> InputBase" where
  "new_InputBoolean p =
     (let b = InputBase_constructor InputBoolean_createEditor p
      in b\<lparr>editor := (editor b)\<lparr>required_attr := None\<rparr>\<rparr>)"

definition InputBoolean_setValue :: "InputBase \<Rightarrow> Term \<Rightarrow> InputBase" where
  "InputBoolean_setValue b t =
     (if isLiteral t
      then b\<lparr>editor := (editor b)\<lparr>checked := (term_value t = ''true'')\<rparr>\<rparr>
      else b)"

definition InputBoolean_toRDFObject :: "InputBase \<Rightarrow> Term option" where
  "InputBoolean_toRDFObject b =
     (if checked (editor b) \<or> required b
      then Some (DataFactory_literal (if checked (editor b) then ''true'' else ''false'')
                   (dataTypeArg (datatype' (property b))))
      else None)"

subsection \<open>InputNumber\<close>

definition InputNumber_createEditor :: Element where
  "InputNumber_createEditor =
     (let input = (createElement ''input'')\<lparr>type_attr := ''number''\<rparr>
      in input\<lparr>classList := classList input @ [''pr-0'']\<rparr>)"

definition new_InputNumber :: "constants \<Rightarrow> ShaclPropertySpec \<Rightarrow> InputBase" where
  "new_InputNumber c p =
     (let b = InputBase_constructor InputNumber_createEditor p;
          input = editor b;
          min_bound = (if truthy_number (minInclusive p) then minInclusive p
                       else if truthy_number (minExclusive p)
                            then map_option (\<lambda>k. k + 1) (minExclusive p)
                            else None);
          max_bound = (if truthy_number (maxInclusive p) then maxInclusive p
                       else if truthy_number (maxExclusive p)
                            then map_option (\<lambda>k. k - 1) (maxExclusive p)
                            else None);
          input1 = (if truthy_number min_bound
                    then input\<lparr>min_attr := map_option String_of_number min_bound\<rparr>
                    else input);
          input2 = (if truthy_number max_bound
                    then input1\<lparr>max_attr := map_option String_of_number max_bound\<rparr>
                    else input1);
          input3 = (if datatype' p \<noteq> Some (PREFIX_XSD c @ ''integer'')
                    then input2\<lparr>step_attr := Some ''0.1''\<rparr>
                    else input2)
      in b\<lparr>editor := input3\<rparr>)"

definition InputNumber_toRDFObject :: "float_ops \<Rightarrow> InputBase \<Rightarrow> Term option" where
  "InputNumber_toRDFObject ops b =
     (if truthy (get_value (editor b))
      then Some (DataFactory_literal_number ops (parseFloat ops (get_value (editor b)))
                   (dataTypeArg (datatype' (property b))))
      else None)"

subsection \<open>InputList\<close>

record InputListEntry =
  entry_value :: Term
  entry_label :: "string option"

definition entry_option :: "InputListEntry \<Rightarrow> HTMLOption" where
  "entry_option item =
     \<lparr> option_value = term_value (entry_value item),
       innerHTML = (case entry_label item of
                      Some l \<Rightarrow> if truthy l then l else term_value (entry_value item)
                    | None \<Rightarrow> term_value (entry_value item)) \<rparr>"

definition setListEntries :: "InputBase \<Rightarrow> InputListEntry list \<Rightarrow> InputBase" where
  "setListEntries b list =
     b\<lparr>editor := foldl (\<lambda>sel item. options_add sel (entry_option item))
                    (options_add (editor b) \<lparr> option_value = [], innerHTML = [] \<rparr>) list\<rparr>"

definition new_InputList :: "ShaclPropertySpec \<Rightarrow> InputListEntry list option \<Rightarrow> InputBase" where
  "new_InputList p listEntries =
     (let b = InputBase_constructor (createElement ''select'') p
      in case listEntries of Some l \<Rightarrow> setListEntries b l | None \<Rightarrow> b)"

definition InputList_toRDFObject :: "constants \<Rightarrow> InputBase \<Rightarrow> Term option" where
  "InputList_toRDFObject c b =
     (if truthy (get_value (editor b))
      then (if class' (property b) \<noteq> None \<or> nodeKind (property b) = Some (PREFIX_SHACL c @ ''IRI'')
            then Some (DataFactory_namedNode (get_value (editor b)))
            else Some (DataFactory_literal (get_value (editor b))
                         (dataTypeArg (datatype' (property b)))))
      else None)"

text \<open>The user picks the choice at position \<open>i\<close> of the selector.\<close>

definition select_choice :: "nat \<Rightarrow> InputBase \<Rightarrow> InputBase" where
  "select_choice i b =
     (if i < length (options (editor b)) then b\<lparr>editor := (editor b)\<lparr>selectedIndex := Some i\<rparr>\<rparr>
      else b)"

text \<open>The user enters a string into the control of an input.\<close>

definition user_types :: "string \<Rightarrow> 'a InputBase_scheme \<Rightarrow> 'a InputBase_scheme" where
  "user_types v b = b\<lparr>editor := set_value (editor b) v\<rparr>"

text \<open>
  What \<^verbatim>\<open>createEditor\<close> of \<^verbatim>\<open>InputDate\<close> establishes and no method changes: the
  editor is an \<^verbatim>\<open>input\<close>, of type \<^verbatim>\<open>datetime-local\<close> when the datatype of the
  property is \<^verbatim>\<open>xsd:dateTime\<close> and of type \<^verbatim>\<open>date\<close> otherwise.
\<close>

definition is_date_editor :: "constants \<Rightarrow> InputBase \<Rightarrow> bool" where
  "is_date_editor c b =
     (tagName (editor b) = ''input''
      \<and> type_attr (editor b) =
          (if datatype' (property b) = Some (PREFIX_XSD c @ ''dateTime'') then ''datetime-local''
           else ''date''))"

text \<open>
  What \<^verbatim>\<open>createEditor\<close> of \<^verbatim>\<open>InputNumber\<close> and the sanitization of a number control
  establish: the editor is an \<^verbatim>\<open>input\<close> of type \<^verbatim>\<open>number\<close>, and its value is empty
  or a valid floating-point number.
\<close>

definition is_number_editor :: "InputBase \<Rightarrow> bool" where
  "is_number_editor b =
     (tagName (editor b) = ''input'' \<and> type_attr (editor b) = ''number''
      \<and> (value' (editor b) = [] \<or> valid_floating_point_number (value' (editor b))))"

subsection \<open>Dynamic dispatch\<close>

text \<open>
  The methods \<^verbatim>\<open>setValue\<close> and \<^verbatim>\<open>toRDFObject\<close> of an input, by its class.  The
  operations of the host are the parameters \<open>Date_parse\<close> and \<open>ops\<close>.
\<close>

fun setValue :: "(string \<Rightarrow> int option) \<Rightarrow> Input \<Rightarrow> Term \<Rightarrow> error + Input" where
  "setValue Date_parse (InputDate b) t = map_sum id InputDate (InputDate_setValue Date_parse b t)"
| "setValue Date_parse (InputText b) t = Inr (InputText (InputBase_setValue b t))"
| "setValue Date_parse (InputLangString b) t = Inr (InputLangString (InputLangString_setValue b t))"
| "setValue Date_parse (InputBoolean b) t = Inr (InputBoolean (InputBoolean_setValue b t))"
| "setValue Date_parse (InputNumber b) t = Inr (InputNumber (InputBase_setValue b t))"
| "setValue Date_parse (InputList b) t = Inr (InputList (InputBase_setValue b t))"

fun toRDFObject :: "constants \<Rightarrow> float_ops \<Rightarrow> Input \<Rightarrow> Term option" where
  "toRDFObject c ops (InputDate b) = InputDate_toRDFObject b"
| "toRDFObject c ops (InputText b) = InputText_toRDFObject c b"
| "toRDFObject c ops (InputLangString b) = InputLangString_toRDFObject b"
| "toRDFObject c ops (InputBoolean b) = InputBoolean_toRDFObject b"
| "toRDFObject c ops (InputNumber b) = InputNumber_toRDFObject ops b"
| "toRDFObject c ops (InputList b) = InputList_toRDFObject c b"

section \<open>The factory\<close>

text \<open>
  Modelled from the spec: \<^verbatim>\<open>createInputListEntries\<close> of the module \<^verbatim>\<open>util\<close>, which
  is not among the sources.  It yields one entry per term of the list, in the order
  of the list, labelled by a label lookup (the parameter \<open>findLabel\<close>, which stands
  for the lookup in the shapes graph in the display language).  A value that is not an
  array of terms cannot be iterated, which is a \<^verbatim>\<open>TypeError\<close>.
\<close>

definition createInputListEntries ::
  "(Term \<Rightarrow> string option) \<Rightarrow> list_value \<Rightarrow> error + InputListEntry list" where
  "createInputListEntries findLabel lv =
     (case lv of
        TermArray list \<Rightarrow> Inr (map (\<lambda>t. \<lparr> entry_value = t, entry_label = findLabel t \<rparr>) list)
      | InheritedMember len \<Rightarrow> Inl TypeError)"

text \<open>
  \<^verbatim>\<open>console.error('list not found:', ...)\<close> is the only diagnostic; the factory
  returns the diagnostics it wrote together with the input it created, or with the
  exception that left it.
\<close>

datatype Diagnostic = ListNotFound string

text \<open>The rules after the list rule: language strings, then the switch on the datatype.\<close>

definition inputFactory_datatype :: "constants \<Rightarrow> ShaclPropertySpec \<Rightarrow> error + Input" where
  "inputFactory_datatype c p =
     (if datatype' p = Some (PREFIX_RDF c @ ''langString'')
         \<or> (case languageIn p of None \<Rightarrow> False | Some langs \<Rightarrow> langs \<noteq> [])
      then map_sum id InputLangString (new_InputLangString p)
      else
        (case map_option (String_replace (PREFIX_XSD c) []) (datatype' p) of
           None \<Rightarrow> map_sum id InputText (InputText_constructor p)
         | Some s \<Rightarrow>
             if s = ''string'' then map_sum id InputText (InputText_constructor p)
             else if s = ''integer'' \<or> s = ''float'' \<or> s = ''double'' \<or> s = ''decimal''
                  then Inr (InputNumber (new_InputNumber c p))
             else if s = ''date'' \<or> s = ''dateTime'' then Inr (InputDate (new_InputDate c p))
             else if s = ''boolean'' then Inr (InputBoolean (new_InputBoolean p))
             else map_sum id InputText (InputText_constructor p)))"

definition inputFactory ::
  "constants \<Rightarrow> (Term \<Rightarrow> string option) \<Rightarrow> ShaclPropertySpec
     \<Rightarrow> Diagnostic list \<times> (error + Input)" where
  "inputFactory c findLabel p =
     (case shaclIn p of
        None \<Rightarrow> ([], inputFactory_datatype c p)
      | Some lid \<Rightarrow>
          if truthy lid
          then (case Record_get (lists (config p)) lid of
                  None \<Rightarrow> ([ListNotFound lid], inputFactory_datatype c p)
                | Some lv \<Rightarrow>
                    if has_length lv
                    then ([], map_sum id (\<lambda>entries. InputList (new_InputList p (Some entries)))
                                (createInputListEntries findLabel lv))
                    else ([ListNotFound lid], inputFactory_datatype c p))
          else ([], inputFactory_datatype c p))"

section \<open>The resolution rules of the specification\<close>

datatype EditorKind =
    List_editor | LangString_editor | Text_editor | Number_editor | Date_editor | Boolean_editor


text \<open>
  The list materialized for the property: the list that the configuration holds for
  the id \<^verbatim>\<open>shaclIn\<close>, empty when \<^verbatim>\<open>shaclIn\<close> is not set (undefined or the empty
  string) or the configuration has no list for it.
\<close>

definition materialized_list :: "ShaclPropertySpec \<Rightarrow> Term list" where
  "materialized_list p =
     (case shaclIn p of
        None \<Rightarrow> []
      | Some lid \<Rightarrow> if lid = [] then []
                    else (case lists (config p) lid of None \<Rightarrow> [] | Some l \<Rightarrow> l))"

definition is_langString :: "constants \<Rightarrow> ShaclPropertySpec \<Rightarrow> bool" where
  "is_langString c p =
     (datatype' p = Some (PREFIX_RDF c @ ''langString'')
      \<or> (case languageIn p of None \<Rightarrow> False | Some langs \<Rightarrow> langs \<noteq> []))"

text \<open>The datatype with the XML Schema namespace removed; none when there is no datatype.\<close>

definition stripped_datatype :: "constants \<Rightarrow> ShaclPropertySpec \<Rightarrow> string option" where
  "stripped_datatype c p = map_option (String_replace (PREFIX_XSD c) []) (datatype' p)"

definition datatype_rule :: "string option \<Rightarrow> EditorKind" where
  "datatype_rule s =
     (if s = Some ''string'' then Text_editor
      else if s \<in> {Some ''integer'', Some ''float'', Some ''double'', Some ''decimal''}
           then Number_editor
      else if s \<in> {Some ''date'', Some ''dateTime''} then Date_editor
      else if s = Some ''boolean'' then Boolean_editor
      else Text_editor)"

definition resolve :: "constants \<Rightarrow> ShaclPropertySpec \<Rightarrow> EditorKind" where
  "resolve c p =
     (if materialized_list p \<noteq> [] then List_editor
      else if is_langString c p then LangString_editor
      else datatype_rule (stripped_datatype c p))"

text \<open>
  The two ways in which the factory is left by an exception.  The record of lists
  does not hold the list id, and an object inherits a function of that name with
  parameters; or a length constraint of the property is negative as a 32-bit integer,
  which the constructor of a text editor or a language string editor assigns to the
  control.
\<close>

definition takes_inherited_member :: "ShaclPropertySpec \<Rightarrow> bool" where
  "takes_inherited_member p =
     (case shaclIn p of
        None \<Rightarrow> False
      | Some lid \<Rightarrow>
          lid \<noteq> [] \<and> lists (config p) lid = None
          \<and> (case map_of Object_prototype lid of
                Some (Some n) \<Rightarrow> n \<noteq> 0
              | _ \<Rightarrow> False))"



section \<open>Example properties\<close>

definition blank_config :: Config where
  "blank_config = \<lparr> language = None, lists = Map.empty \<rparr>"

definition blank_property :: ShaclPropertySpec where
  "blank_property =
     \<lparr> path = ''http://example.org/p'', label = ''p'', description = None, datatype' = None,
       class' = None, nodeKind = None, minCount = None, maxCount = None, minLength = None,
       maxLength = None, pattern = None, minInclusive = None, maxInclusive = None,
       minExclusive = None, maxExclusive = None, singleLine = None, languageIn = None,
       shaclIn = None, defaultValue = None, config = blank_config \<rparr>"

definition integer_property :: ShaclPropertySpec where
  "integer_property =
     blank_property\<lparr>datatype' := Some ''http://www.w3.org/2001/XMLSchema#integer''\<rparr>"

definition missing_list_property :: ShaclPropertySpec where
  "missing_list_property = integer_property\<lparr>shaclIn := Some ''colorList''\<rparr>"

definition boolean_property :: ShaclPropertySpec where
  "boolean_property =
     blank_property\<lparr>datatype' := Some ''http://www.w3.org/2001/XMLSchema#boolean'',
                    minCount := Some 1\<rparr>"

definition scenario_property :: ShaclPropertySpec where
  "scenario_property = integer_property\<lparr>minInclusive := Some 0, maxExclusive := Some 10\<rparr>"

definition zero_length_property :: ShaclPropertySpec where
  "zero_length_property = blank_property\<lparr>maxLength := Some 0\<rparr>"

definition dateTime_property :: ShaclPropertySpec where
  "dateTime_property =
     blank_property\<lparr>datatype' := Some ''http://www.w3.org/2001/XMLSchema#dateTime''\<rparr>"

definition color_property :: ShaclPropertySpec where
  "color_property =
     blank_property\<lparr>shaclIn := Some ''colorList'', class' := Some ''http://example.org/Color''\<rparr>"

definition color_entries :: "InputListEntry list" where
  "color_entries =
     [\<lparr> entry_value = NamedNode ''http://example.org/Red'', entry_label = Some ''Red'' \<rparr>,
      \<lparr> entry_value = NamedNode ''http://example.org/Blue'', entry_label = Some ''Blue'' \<rparr>]"

definition empty_entry :: InputListEntry where
  "empty_entry = \<lparr> entry_value = Literal [] [] xsd_string, entry_label = Some ''(none)'' \<rparr>"

definition english_us_property :: ShaclPropertySpec where
  "english_us_property =
     blank_property\<lparr>languageIn := Some [Literal ''en-US'' [] xsd_string]\<rparr>"

definition color_list_property :: ShaclPropertySpec where
  "color_list_property =
     integer_property\<lparr>shaclIn := Some ''colorList'',
       languageIn := Some [Literal ''en'' [] xsd_string],
       config := \<lparr> language = Some ''en'',
                   lists = [''colorList'' \<mapsto> [NamedNode ''http://example.org/Red'',
                                              NamedNode ''http://example.org/Blue'']] \<rparr>\<rparr>"

definition tagged_string_property :: ShaclPropertySpec where
  "tagged_string_property =
     blank_property\<lparr>datatype' := Some ''http://www.w3.org/2001/XMLSchema#string'',
                    languageIn := Some [Literal ''en'' [] xsd_string]\<rparr>"



definition inherited_key_property :: ShaclPropertySpec where
  "inherited_key_property = integer_property\<lparr>shaclIn := Some ''constructor''\<rparr>"

text \<open>A graph without labels.\<close>

definition no_label :: "Term \<Rightarrow> string option" where
  "no_label t = None"

text \<open>
  A host for the examples, which use integers of magnitude below 2 to the power 53
  only: such a number is a double, and its rendering is its decimal numeral.
\<close>

definition integer_host :: float_ops where
  "integer_host =
     \<lparr> roundToDouble = Finite,
       Number_toString_finite = (\<lambda>r. String_of_number (fst (quotient_of r))) \<rparr>"

definition assigned_abc :: InputBase where
  "assigned_abc =
     InputBase_setValue (new_InputNumber w3c integer_property)
       (Literal ''abc'' [] ''http://www.w3.org/2001/XMLSchema#integer'')"

definition assigned_42 :: InputBase where
  "assigned_42 =
     InputBase_setValue (new_InputNumber w3c integer_property)
       (Literal ''42'' [] ''http://www.w3.org/2001/XMLSchema#integer'')"

definition date_property :: ShaclPropertySpec where
  "date_property =
     blank_property\<lparr>datatype' := Some ''http://www.w3.org/2001/XMLSchema#date''\<rparr>"

section \<open>Facts about the constructors\<close>

lemma foldl_options_add:
  "options (foldl (\<lambda>sel item. options_add sel (f item)) e list) = options e @ map f list
   \<and> tagName (foldl (\<lambda>sel item. options_add sel (f item)) e list) = tagName e"
  by (induction list arbitrary: e) (simp_all add: options_add_def)

lemma InputBase_constructor_editor:
  "tagName (editor (InputBase_constructor e p)) = tagName e"
  "type_attr (editor (InputBase_constructor e p)) = type_attr e"
  "options (editor (InputBase_constructor e p)) = options e"
  "selectedIndex (editor (InputBase_constructor e p)) = selectedIndex e"
  "property (InputBase_constructor e p) = p"
  by (simp_all add: InputBase_constructor_def Let_def setAttribute_value_def split: option.splits)

lemma createElement_select:
  "tagName (createElement tag) = tag"
  "options (createElement tag) = []"
  "selectedIndex (createElement tag) = None"
  by (simp_all add: createElement_def)

lemma options_add_simps:
  "tagName (options_add e x) = tagName e"
  "options (options_add e x) = options e @ [x]"
  by (simp_all add: options_add_def)

lemma foldl_options_add_selected:
  "selectedIndex e = Some k \<Longrightarrow>
   selectedIndex (foldl (\<lambda>sel item. options_add sel (f item)) e list) = Some k"
  by (induction list arbitrary: e) (simp_all add: options_add_def)

lemma new_InputList_selected:
  "selectedIndex (editor (new_InputList p (Some entries))) = Some 0"
proof -
  let ?e = "options_add (editor (InputBase_constructor (createElement ''select'') p))
              \<lparr> option_value = [], innerHTML = [] \<rparr>"
  have "selectedIndex ?e = Some 0"
    by (simp add: options_add_def InputBase_constructor_editor createElement_select)
  then show ?thesis
    by (simp add: new_InputList_def setListEntries_def Let_def foldl_options_add_selected)
qed

lemma new_InputList_editor:
  "tagName (editor (new_InputList p (Some entries))) = ''select''"
  "options (editor (new_InputList p (Some entries)))
     = \<lparr> option_value = [], innerHTML = [] \<rparr> # map entry_option entries"
  "property (new_InputList p (Some entries)) = p"
  by (simp_all add: new_InputList_def setListEntries_def foldl_options_add Let_def
      InputBase_constructor_editor options_add_simps createElement_select)

lemma select_choice_value:
  assumes "tagName (editor b) = ''select''" and "i < length (options (editor b))"
  shows "get_value (editor (select_choice i b)) = option_value (options (editor b) ! i)"
  using assms by (simp add: select_choice_def get_value_def)

lemma InputBase_constructor_attrs:
  "min_attr (editor (InputBase_constructor e p)) = min_attr e"
  "max_attr (editor (InputBase_constructor e p)) = max_attr e"
  "step_attr (editor (InputBase_constructor e p)) = step_attr e"
  "minlength_attr (editor (InputBase_constructor e p)) = minlength_attr e"
  "maxlength_attr (editor (InputBase_constructor e p)) = maxlength_attr e"
  "pattern_attr (editor (InputBase_constructor e p)) = pattern_attr e"
  by (simp_all add: InputBase_constructor_def Let_def setAttribute_value_def split: option.splits)

lemma ToInt32_negative_nonzero: "ToInt32 k < 0 \<Longrightarrow> k \<noteq> 0"
  by (auto simp: ToInt32_def)

lemma assign_length_result:
  "assign_length set_minLength n e =
     (case n of None \<Rightarrow> Inr e
      | Some k \<Rightarrow> if ToInt32 k < 0 then Inl IndexSizeError
                  else if k = 0 then Inr e else Inr (e\<lparr>minlength_attr := Some (ToInt32 k)\<rparr>))"
  "assign_length set_maxLength n e =
     (case n of None \<Rightarrow> Inr e
      | Some k \<Rightarrow> if ToInt32 k < 0 then Inl IndexSizeError
                  else if k = 0 then Inr e else Inr (e\<lparr>maxlength_attr := Some (ToInt32 k)\<rparr>))"
  by (auto simp: assign_length_def set_minLength_def set_maxLength_def ToInt32_def
      split: option.splits)



section \<open>Resolution\<close>

lemma String_replace_prefix: "String_replace pat [] (pat @ s) = s"
proof (cases "pat @ s")
  case Nil
  then show ?thesis by simp
next
  case (Cons a l)
  have "take (length pat) (pat @ s) = pat" by simp
  with Cons have "take (length pat) (a # l) = pat" by simp
  moreover have "drop (length pat) (a # l) = s" using Cons by (metis append_eq_conv_conj)
  ultimately show ?thesis using Cons by simp
qed

lemma stripped_xsd:
  "stripped_datatype c (p\<lparr>datatype' := Some (PREFIX_XSD c @ name)\<rparr>) = Some name"
  by (simp add: stripped_datatype_def String_replace_prefix)


text \<open>
  What the factory builds, for a property whose list id does not reach an inherited
  member of the record of lists: the input of the class that the rules choose, or the
  exception of its constructor.
\<close>

lemma inputFactory_builds:
  assumes "\<not> takes_inherited_member p"
  shows "snd (inputFactory c findLabel p) =
     (case resolve c p of
        List_editor \<Rightarrow>
          Inr (InputList (new_InputList p
                 (Some (map (\<lambda>t. \<lparr> entry_value = t, entry_label = findLabel t \<rparr>)
                          (materialized_list p)))))
      | LangString_editor \<Rightarrow> map_sum id InputLangString (new_InputLangString p)
      | Text_editor \<Rightarrow> map_sum id InputText (InputText_constructor p)
      | Number_editor \<Rightarrow> Inr (InputNumber (new_InputNumber c p))
      | Date_editor \<Rightarrow> Inr (InputDate (new_InputDate c p))
      | Boolean_editor \<Rightarrow> Inr (InputBoolean (new_InputBoolean p)))"
proof (cases "materialized_list p = []")
  case True
  then have r: "resolve c p =
      (if is_langString c p then LangString_editor else datatype_rule (stripped_datatype c p))"
    by (simp add: resolve_def)
  have "snd (inputFactory c findLabel p) = inputFactory_datatype c p"
    using assms True
    by (auto simp: inputFactory_def truthy_def takes_inherited_member_def Record_get_def
        has_length_def materialized_list_def split: option.splits)
  also have "\<dots> =
     (case (if is_langString c p then LangString_editor
            else datatype_rule (stripped_datatype c p)) of
        List_editor \<Rightarrow>
          Inr (InputList (new_InputList p
                 (Some (map (\<lambda>t. \<lparr> entry_value = t, entry_label = findLabel t \<rparr>)
                          (materialized_list p)))))
      | LangString_editor \<Rightarrow> map_sum id InputLangString (new_InputLangString p)
      | Text_editor \<Rightarrow> map_sum id InputText (InputText_constructor p)
      | Number_editor \<Rightarrow> Inr (InputNumber (new_InputNumber c p))
      | Date_editor \<Rightarrow> Inr (InputDate (new_InputDate c p))
      | Boolean_editor \<Rightarrow> Inr (InputBoolean (new_InputBoolean p)))"
    by (auto simp: inputFactory_datatype_def is_langString_def datatype_rule_def
        stripped_datatype_def split: option.splits)
  finally show ?thesis unfolding r .
next
  case False
  then obtain lid l where l: "shaclIn p = Some lid" "lid \<noteq> []" "lists (config p) lid = Some l"
      "l \<noteq> []" "materialized_list p = l"
    by (auto simp: materialized_list_def split: option.splits if_splits)
  then have "snd (inputFactory c findLabel p) =
      Inr (InputList (new_InputList p
             (Some (map (\<lambda>t. \<lparr> entry_value = t, entry_label = findLabel t \<rparr>) l))))"
    by (simp add: inputFactory_def truthy_def Record_get_def has_length_def
        createInputListEntries_def)
  then show ?thesis using False l by (simp add: resolve_def)
qed



lemma examples_own_keys:
  "\<not> takes_inherited_member integer_property"
  "\<not> takes_inherited_member color_list_property"
  "\<not> takes_inherited_member tagged_string_property"
  "\<not> takes_inherited_member dateTime_property"
  "\<not> takes_inherited_member boolean_property"
  "\<not> takes_inherited_member blank_property"
  "\<not> takes_inherited_member scenario_property"
  "\<not> takes_inherited_member zero_length_property"
  "\<not> takes_inherited_member missing_list_property"
  by code_simp+






text \<open>
  The case that the amended claim leaves out: the list id \<^verbatim>\<open>constructor\<close> is not a
  key of the record of lists, but the record inherits a function of that name, whose
  length is 1.  The factory takes the list branch, without a diagnostic, although the
  rules choose the number editor.
\<close>

lemma inherited_member_takes_list_branch:
  "takes_inherited_member inherited_key_property"
  "resolve w3c inherited_key_property = Number_editor"
  "inputFactory w3c no_label inherited_key_property = ([], Inl TypeError)"
proof -
  show "takes_inherited_member inherited_key_property"
    "resolve w3c inherited_key_property = Number_editor"
    by code_simp+
  have "shaclIn inherited_key_property = Some ''constructor''"
    "Record_get (lists (config inherited_key_property)) ''constructor''
       = Some (InheritedMember (Some 1))"
    by code_simp+
  then show "inputFactory w3c no_label inherited_key_property = ([], Inl TypeError)"
    by (simp add: inputFactory_def truthy_def has_length_def createInputListEntries_def)
qed






section \<open>The boolean editor\<close>

text \<open>
  Claim C4.  \<^verbatim>\<open>toRDFObject\<close> of a boolean editor: a checked box gives the literal
  \<^verbatim>\<open>true\<close> with the datatype of the property, whether required or not; an unchecked
  box gives the literal \<^verbatim>\<open>false\<close> when the property is required and nothing when it
  is not.  The constructor sets \<^verbatim>\<open>required\<close> exactly when \<^verbatim>\<open>minCount\<close> is greater
  than zero.
\<close>

theorem InputBoolean_toRDFObject_asymmetry:
  "InputBoolean_toRDFObject b =
     (if checked (editor b)
      then Some (DataFactory_literal ''true'' (dataTypeArg (datatype' (property b))))
      else if required b
           then Some (DataFactory_literal ''false'' (dataTypeArg (datatype' (property b))))
           else None)
   \<and> required (new_InputBoolean p) = (case minCount p of None \<Rightarrow> False | Some n \<Rightarrow> 0 < n)
   \<and> property (new_InputBoolean p) = p"
  by (simp add: InputBoolean_toRDFObject_def new_InputBoolean_def InputBase_constructor_def Let_def)

theorem InputBoolean_toRDFObject_asymmetry_witness:
  "InputBoolean_toRDFObject (new_InputBoolean boolean_property)
     = Some (Literal ''false'' [] ''http://www.w3.org/2001/XMLSchema#boolean'')
   \<and> InputBoolean_toRDFObject (new_InputBoolean blank_property) = None"
proof -
  have "checked (editor (new_InputBoolean boolean_property)) = False"
       "required (new_InputBoolean boolean_property) = True"
       "checked (editor (new_InputBoolean blank_property)) = False"
       "required (new_InputBoolean blank_property) = False"
       "datatype' (property (new_InputBoolean boolean_property))
          = Some ''http://www.w3.org/2001/XMLSchema#boolean''"
    by code_simp+
  then show ?thesis
    using InputBoolean_toRDFObject_asymmetry [of "new_InputBoolean boolean_property"]
      InputBoolean_toRDFObject_asymmetry [of "new_InputBoolean blank_property"]
    by (simp add: dataTypeArg_def)
qed

text \<open>
  Claim C10.  \<^verbatim>\<open>setValue\<close> of a boolean editor with a literal checks the box exactly
  when the lexical value is the string \<^verbatim>\<open>true\<close>, and changes nothing else; with a
  named node it leaves the editor as it is.
\<close>

theorem InputBoolean_setValue_checked:
  "checked (editor (InputBoolean_setValue b (Literal v lang dt))) = (v = ''true'')
   \<and> InputBoolean_setValue b (Literal v lang dt)
       = b\<lparr>editor := (editor b)\<lparr>checked := (v = ''true'')\<rparr>\<rparr>
   \<and> InputBoolean_setValue b (NamedNode iri) = b"
  by (simp add: InputBoolean_setValue_def)

theorem InputBoolean_setValue_checked_witness:
  "checked (editor (InputBoolean_setValue (new_InputBoolean boolean_property)
      (Literal ''true'' [] ''http://www.w3.org/2001/XMLSchema#boolean'')))
   \<and> \<not> checked (editor (InputBoolean_setValue (new_InputBoolean boolean_property)
      (Literal ''TRUE'' [] ''http://www.w3.org/2001/XMLSchema#boolean'')))
   \<and> \<not> checked (editor (InputBoolean_setValue (new_InputBoolean boolean_property)
      (Literal ''1'' [] ''http://www.w3.org/2001/XMLSchema#boolean'')))"
  using InputBoolean_setValue_checked [of "new_InputBoolean boolean_property" "''true''"]
    InputBoolean_setValue_checked [of "new_InputBoolean boolean_property" "''TRUE''"]
    InputBoolean_setValue_checked [of "new_InputBoolean boolean_property" "''1''"]
  by simp

section \<open>The number editor\<close>

text \<open>The bounds and the step that the constructor sets.\<close>

lemma InputNumber_bounds:
  "min_attr (editor (new_InputNumber c p)) =
     (if truthy_number (minInclusive p) then map_option String_of_number (minInclusive p)
      else if truthy_number (minExclusive p) \<and> minExclusive p \<noteq> Some (- 1)
           then map_option (\<lambda>k. String_of_number (k + 1)) (minExclusive p)
           else None)"
  "max_attr (editor (new_InputNumber c p)) =
     (if truthy_number (maxInclusive p) then map_option String_of_number (maxInclusive p)
      else if truthy_number (maxExclusive p) \<and> maxExclusive p \<noteq> Some 1
           then map_option (\<lambda>k. String_of_number (k - 1)) (maxExclusive p)
           else None)"
  "step_attr (editor (new_InputNumber c p)) =
     (if datatype' p = Some (PREFIX_XSD c @ ''integer'') then None else Some ''0.1'')"
proof -
  let ?e = "editor (InputBase_constructor InputNumber_createEditor p)"
  have e: "min_attr ?e = None" "max_attr ?e = None" "step_attr ?e = None"
    by (simp_all add: InputBase_constructor_attrs InputNumber_createEditor_def createElement_def)
  show "min_attr (editor (new_InputNumber c p)) =
     (if truthy_number (minInclusive p) then map_option String_of_number (minInclusive p)
      else if truthy_number (minExclusive p) \<and> minExclusive p \<noteq> Some (- 1)
           then map_option (\<lambda>k. String_of_number (k + 1)) (minExclusive p)
           else None)"
    using e by (cases "minInclusive p"; cases "minExclusive p")
      (simp_all add: new_InputNumber_def Let_def truthy_number_def)
  show "max_attr (editor (new_InputNumber c p)) =
     (if truthy_number (maxInclusive p) then map_option String_of_number (maxInclusive p)
      else if truthy_number (maxExclusive p) \<and> maxExclusive p \<noteq> Some 1
           then map_option (\<lambda>k. String_of_number (k - 1)) (maxExclusive p)
           else None)"
    using e by (cases "maxInclusive p"; cases "maxExclusive p")
      (simp_all add: new_InputNumber_def Let_def truthy_number_def)
  show "step_attr (editor (new_InputNumber c p)) =
     (if datatype' p = Some (PREFIX_XSD c @ ''integer'') then None else Some ''0.1'')"
    using e by (simp add: new_InputNumber_def Let_def)
qed

text \<open>A number editor that the factory builds is for a property with a datatype.\<close>

lemma number_editor_has_datatype:
  assumes "resolve c p = Number_editor"
  shows "\<exists>dt. datatype' p = Some dt \<and> dt \<noteq> []"
proof -
  have "datatype_rule (stripped_datatype c p) = Number_editor"
    using assms by (simp add: resolve_def split: if_splits)
  then obtain s where s: "stripped_datatype c p = Some s" "s \<noteq> []"
    by (auto simp: datatype_rule_def split: if_splits)
  then obtain dt where dt: "datatype' p = Some dt" "String_replace (PREFIX_XSD c) [] dt = s"
    by (auto simp: stripped_datatype_def)
  with s(2) have "dt \<noteq> []" by auto
  with dt show ?thesis by simp
qed

lemma resolve_scenario: "resolve w3c scenario_property = Number_editor"
  by code_simp

text \<open>
  Claim C3.  For the property with datatype \<^verbatim>\<open>xsd:integer\<close>, \<^verbatim>\<open>minInclusive\<close> 0 and
  \<^verbatim>\<open>maxExclusive\<close> 10 the factory builds a number editor with \<^verbatim>\<open>max\<close> 9 and no
  \<^verbatim>\<open>step\<close> attribute (the step of a number control is then 1), but without a
  \<^verbatim>\<open>min\<close>: the constructor tests the bound for truthiness, and 0 is not truthy.
\<close>

theorem InputNumber_zero_minInclusive:
  "snd (inputFactory w3c no_label scenario_property)
     = Inr (InputNumber (new_InputNumber w3c scenario_property))
   \<and> minInclusive scenario_property = Some 0
   \<and> min_attr (editor (new_InputNumber w3c scenario_property)) = None
   \<and> max_attr (editor (new_InputNumber w3c scenario_property)) = Some ''9''
   \<and> step_attr (editor (new_InputNumber w3c scenario_property)) = None"
proof -
  have "minInclusive scenario_property = Some 0"
       "min_attr (editor (new_InputNumber w3c scenario_property)) = None"
       "max_attr (editor (new_InputNumber w3c scenario_property)) = Some ''9''"
       "step_attr (editor (new_InputNumber w3c scenario_property)) = None"
    by code_simp+
  then show ?thesis by (simp add: inputFactory_builds resolve_scenario examples_own_keys)
qed

text \<open>
  A number control holds the empty string or a valid floating-point number: the
  constructor establishes this, and \<^verbatim>\<open>setValue\<close> and the user keep it.
\<close>

lemma new_InputNumber_is_number_editor: "is_number_editor (new_InputNumber c p)"
  by (simp add: is_number_editor_def new_InputNumber_def InputBase_constructor_def Let_def
      setAttribute_value_def InputNumber_createEditor_def createElement_def sanitize_def
      split: option.splits)

lemma number_control_sanitizes:
  assumes "is_number_editor b"
  shows "get_value (editor (InputBase_setValue b t))
           = (if valid_floating_point_number (term_value t) then term_value t else [])"
    and "is_number_editor (InputBase_setValue b t)"
    and "get_value (editor (user_types v b)) = (if valid_floating_point_number v then v else [])"
    and "is_number_editor (user_types v b)"
  using assms
  by (simp_all add: is_number_editor_def InputBase_setValue_def user_types_def set_value_def
      get_value_def sanitize_def)

text \<open>A valid floating-point number starts with a decimal literal, which is not an infinity.\<close>

lemma isDigit_not_space: "isDigit ch \<Longrightarrow> \<not> isWhiteSpace ch"
  by (auto simp: isDigit_def isWhiteSpace_def)

lemma unsigned_prefix_valid:
  assumes "case dropWhile isDigit u of
             [] \<Rightarrow> takeWhile isDigit u \<noteq> []
           | d # r \<Rightarrow>
               if d = CHR ''.''
               then takeWhile isDigit r \<noteq> [] \<and> valid_exponent (dropWhile isDigit r)
               else takeWhile isDigit u \<noteq> [] \<and> valid_exponent (dropWhile isDigit u)"
  shows "\<exists>ip fp ex. unsigned_prefix neg u = Some (DecimalLiteral neg ip fp ex)"
    and "u \<noteq> []" and "isDigit (hd u) \<or> hd u = CHR ''.''"
proof -
  show ne: "u \<noteq> []" using assms by auto
  then obtain a w where u: "u = a # w" by (cases u) auto
  show hd: "isDigit (hd u) \<or> hd u = CHR ''.''"
    using assms u by (cases "isDigit a") (auto split: if_splits)
  have "isDigit CHR ''I'' = False" by (simp add: isDigit_def)
  with hd u have "a \<noteq> CHR ''I''" by auto
  with u have inf: "take 8 u \<noteq> ''Infinity''" by auto
  show "\<exists>ip fp ex. unsigned_prefix neg u = Some (DecimalLiteral neg ip fp ex)"
    using assms inf
    by (auto simp: unsigned_prefix_def Let_def split: list.splits if_splits)
      (metis dropWhile_eq_Nil_conv list.simps(3))
qed

lemma valid_number_has_prefix:
  assumes "valid_floating_point_number v"
  shows "\<exists>neg ip fp ex. StrDecimalLiteral_prefix (dropWhile isWhiteSpace v)
           = Some (DecimalLiteral neg ip fp ex)"
proof -
  have sp: "\<not> isWhiteSpace CHR ''-''" "\<not> isWhiteSpace CHR ''.''" "\<not> isDigit CHR ''+''"
    "\<not> isDigit CHR ''-''"
    by (simp_all add: isWhiteSpace_def isDigit_def)
  from assms obtain a w where v: "v = a # w"
    by (cases v) (auto simp: valid_floating_point_number_def)
  show ?thesis
  proof (cases "a = CHR ''-''")
    case True
    have u: "(case v of [] \<Rightarrow> [] | sg # r \<Rightarrow> if sg = CHR ''-'' then r else v) = w"
      using v True by simp
    from assms have "case dropWhile isDigit w of
             [] \<Rightarrow> takeWhile isDigit w \<noteq> []
           | d # r \<Rightarrow>
               if d = CHR ''.''
               then takeWhile isDigit r \<noteq> [] \<and> valid_exponent (dropWhile isDigit r)
               else takeWhile isDigit w \<noteq> [] \<and> valid_exponent (dropWhile isDigit w)"
      by (simp only: valid_floating_point_number_def Let_def u)
    from unsigned_prefix_valid(1) [OF this, of True]
    show ?thesis using True v sp by (auto simp: StrDecimalLiteral_prefix_def)
  next
    case False
    have u: "(case v of [] \<Rightarrow> [] | sg # r \<Rightarrow> if sg = CHR ''-'' then r else v) = v"
      using v False by simp
    from assms have b: "case dropWhile isDigit v of
             [] \<Rightarrow> takeWhile isDigit v \<noteq> []
           | d # r \<Rightarrow>
               if d = CHR ''.''
               then takeWhile isDigit r \<noteq> [] \<and> valid_exponent (dropWhile isDigit r)
               else takeWhile isDigit v \<noteq> [] \<and> valid_exponent (dropWhile isDigit v)"
      by (simp only: valid_floating_point_number_def Let_def u)
    from unsigned_prefix_valid(3) [OF b] v have a: "isDigit a \<or> a = CHR ''.''" by simp
    then have "\<not> isWhiteSpace a" "a \<noteq> CHR ''+''"
      using sp isDigit_not_space by auto
    with unsigned_prefix_valid(1) [OF b, of False]
    show ?thesis using False v by (auto simp: StrDecimalLiteral_prefix_def)
  qed
qed

lemma number_facts:
  "get_value (editor assigned_abc) = []"
  "get_value (editor assigned_42) = ''42''"
  "datatype' (property assigned_42) = Some ''http://www.w3.org/2001/XMLSchema#integer''"
  "Number_toString integer_host (parseFloat integer_host ''42'') = ''42''"
  by code_simp+

text \<open>
  Claim C9, as stated, fails: a non-numeric string does not give the literal
  \<^verbatim>\<open>NaN\<close>.  A number control does not keep the string \<^verbatim>\<open>abc\<close>: after
  \<^verbatim>\<open>setValue\<close> with the literal \<^verbatim>\<open>abc\<close> the value of the control is the empty
  string, and \<^verbatim>\<open>toRDFObject\<close> returns nothing.
\<close>

theorem InputNumber_non_numeric_counterexample:
  "get_value (editor assigned_abc) = []
   \<and> InputNumber_toRDFObject integer_host assigned_abc = None"
  by (simp add: InputNumber_toRDFObject_def truthy_def number_facts)

text \<open>
  Claim C9, amended.  \<^verbatim>\<open>toRDFObject\<close> of a number editor has no statement that
  throws.  The control of a number editor holds the empty string or a valid
  floating-point number: \<^verbatim>\<open>setValue\<close> with any other lexical value leaves it empty.
  \<^verbatim>\<open>toRDFObject\<close> returns nothing exactly when the value of the control is empty.
  A value that is not empty starts with a decimal literal, so \<^verbatim>\<open>parseFloat\<close> of it
  is the double of that literal and never the not-a-number of a string without a
  numeric prefix; the result is the literal of that number: with the datatype of the
  property its lexical form is the rendering of the number, and without a datatype it
  is the literal that the data factory types itself.
\<close>

theorem InputNumber_toRDFObject_literal:
  assumes "is_number_editor b"
  shows "(InputNumber_toRDFObject ops b = None) = (get_value (editor b) = [])
   \<and> (get_value (editor b) \<noteq> [] \<longrightarrow>
        (\<exists>neg ip fp ex.
            StrDecimalLiteral_prefix (dropWhile isWhiteSpace (get_value (editor b)))
              = Some (DecimalLiteral neg ip fp ex)
            \<and> parseFloat ops (get_value (editor b))
                = roundToDouble ops (literal_value neg ip fp ex)))
   \<and> (get_value (editor b) \<noteq> [] \<and> datatype' (property b) = Some dt \<and> dt \<noteq> [] \<longrightarrow>
        InputNumber_toRDFObject ops b =
          Some (Literal (Number_toString ops (parseFloat ops (get_value (editor b)))) [] dt))
   \<and> (get_value (editor b) \<noteq> []
        \<and> (datatype' (property b) = None \<or> datatype' (property b) = Some []) \<longrightarrow>
        InputNumber_toRDFObject ops b =
          Some (DataFactory_literal_number ops (parseFloat ops (get_value (editor b)))
                  Undefined))
   \<and> get_value (editor (InputBase_setValue b t))
       = (if valid_floating_point_number (term_value t) then term_value t else [])
   \<and> is_number_editor (InputBase_setValue b t)"
proof -
  have v: "get_value (editor b) = value' (editor b)"
    using assms by (simp add: is_number_editor_def get_value_def)
  have 1: "(InputNumber_toRDFObject ops b = None) = (get_value (editor b) = [])"
    by (simp add: InputNumber_toRDFObject_def truthy_def)
  have 2: "\<exists>neg ip fp ex.
            StrDecimalLiteral_prefix (dropWhile isWhiteSpace (get_value (editor b)))
              = Some (DecimalLiteral neg ip fp ex)
            \<and> parseFloat ops (get_value (editor b))
                = roundToDouble ops (literal_value neg ip fp ex)"
    if "get_value (editor b) \<noteq> []"
  proof -
    from that assms v have "valid_floating_point_number (get_value (editor b))"
      by (auto simp: is_number_editor_def)
    from valid_number_has_prefix [OF this] obtain neg ip fp ex where
      "StrDecimalLiteral_prefix (dropWhile isWhiteSpace (get_value (editor b)))
         = Some (DecimalLiteral neg ip fp ex)"
      by blast
    then show ?thesis by (simp add: parseFloat_def)
  qed
  have 3: "InputNumber_toRDFObject ops b =
          Some (Literal (Number_toString ops (parseFloat ops (get_value (editor b)))) [] dt)"
    if "get_value (editor b) \<noteq> []" "datatype' (property b) = Some dt" "dt \<noteq> []"
    using that
    by (simp add: InputNumber_toRDFObject_def truthy_def DataFactory_literal_number_def
        dataTypeArg_def)
  have 4: "InputNumber_toRDFObject ops b =
          Some (DataFactory_literal_number ops (parseFloat ops (get_value (editor b)))
                  Undefined)"
    if "get_value (editor b) \<noteq> []"
      "datatype' (property b) = None \<or> datatype' (property b) = Some []"
    using that
    by (auto simp: InputNumber_toRDFObject_def truthy_def DataFactory_literal_number_def
        dataTypeArg_def)
  show ?thesis
    using 1 2 3 4 number_control_sanitizes(1,2) [OF assms] by blast
qed

theorem InputNumber_toRDFObject_literal_witness:
  "InputNumber_toRDFObject integer_host assigned_42
     = Some (Literal ''42'' [] ''http://www.w3.org/2001/XMLSchema#integer'')
   \<and> get_value (editor (InputBase_setValue (new_InputNumber w3c integer_property)
                          (Literal ''4 2'' [] xsd_string))) = []"
proof -
  let ?dt = "''http://www.w3.org/2001/XMLSchema#integer''"
  have n: "is_number_editor (new_InputNumber w3c integer_property)"
    by (rule new_InputNumber_is_number_editor)
  have a: "is_number_editor assigned_42"
    unfolding assigned_42_def by (rule number_control_sanitizes(2) [OF n])
  have "\<not> valid_floating_point_number ''4 2''" by code_simp
  then have "get_value (editor (InputBase_setValue (new_InputNumber w3c integer_property)
                          (Literal ''4 2'' [] xsd_string))) = []"
    using InputNumber_toRDFObject_literal [OF n, of integer_host ?dt "Literal ''4 2'' [] xsd_string"]
    by simp
  moreover have "InputNumber_toRDFObject integer_host assigned_42 = Some (Literal ''42'' [] ?dt)"
  proof -
    have "get_value (editor assigned_42) \<noteq> [] \<and> datatype' (property assigned_42) = Some ?dt
          \<and> ?dt \<noteq> []"
      by (simp add: number_facts)
    with InputNumber_toRDFObject_literal [OF a, of integer_host ?dt]
    have "InputNumber_toRDFObject integer_host assigned_42 =
        Some (Literal (Number_toString integer_host
                (parseFloat integer_host (get_value (editor assigned_42)))) [] ?dt)"
      by blast
    then show ?thesis by (simp add: number_facts)
  qed
  ultimately show ?thesis by simp
qed

section \<open>The text and list editors\<close>

text \<open>
  The constraints that the constructor of the text editor sets when it returns, and
  the kind of control it creates.  A length constraint is set when it is not 0, as a
  32-bit integer; the pattern is set when it is not empty and the control is an
  \<^verbatim>\<open>input\<close>: a \<^verbatim>\<open>textarea\<close> has no pattern.
\<close>

lemma InputText_constraints:
  assumes "InputText_constructor p = Inr b"
  shows "minlength_attr (editor b) =
           (if truthy_number (minLength p) then map_option ToInt32 (minLength p) else None)"
    and "maxlength_attr (editor b) =
           (if truthy_number (maxLength p) then map_option ToInt32 (maxLength p) else None)"
    and "pattern_attr (editor b) =
           (case pattern p of
              Some pt \<Rightarrow> if truthy pt \<and> singleLine p \<noteq> Some False then Some pt else None
            | None \<Rightarrow> None)"
    and "(tagName (editor b) = ''textarea'') = (singleLine p = Some False)"
    and "(tagName (editor b) = ''input'' \<and> type_attr (editor b) = ''text'')
           = (singleLine p \<noteq> Some False)"
    and "property b = p"
proof -
  let ?e = "editor (InputBase_constructor (InputText_createEditor p) p)"
  have e: "minlength_attr ?e = None" "maxlength_attr ?e = None" "pattern_attr ?e = None"
    "tagName ?e = (if singleLine p = Some False then ''textarea'' else ''input'')"
    "type_attr ?e = (if singleLine p = Some False then [] else ''text'')"
    "property (InputBase_constructor (InputText_createEditor p) p) = p"
    by (simp_all add: InputBase_constructor_attrs InputBase_constructor_editor
        InputText_createEditor_def createElement_def)
  from assms obtain e1 e2 where
    1: "assign_length set_minLength (minLength p) ?e = Inr e1"
    and 2: "assign_length set_maxLength (maxLength p) e1 = Inr e2"
    and b: "b = (InputBase_constructor (InputText_createEditor p) p)\<lparr>editor :=
                  (case pattern p of
                     Some pt \<Rightarrow> if truthy pt then set_pattern e2 pt else e2
                   | None \<Rightarrow> e2)\<rparr>"
    by (auto simp: InputText_constructor_def Let_def split: sum.splits)
  have e1: "e1 = (if truthy_number (minLength p)
                  then ?e\<lparr>minlength_attr := map_option ToInt32 (minLength p)\<rparr> else ?e)"
    using 1 by (auto simp: assign_length_result truthy_number_def split: option.splits if_splits)
  have e2: "e2 = (if truthy_number (maxLength p)
                  then e1\<lparr>maxlength_attr := map_option ToInt32 (maxLength p)\<rparr> else e1)"
    using 2 by (auto simp: assign_length_result truthy_number_def split: option.splits if_splits)
  show "minlength_attr (editor b) =
           (if truthy_number (minLength p) then map_option ToInt32 (minLength p) else None)"
    using e by (cases "pattern p") (simp_all add: b e1 e2 set_pattern_def)
  show "maxlength_attr (editor b) =
           (if truthy_number (maxLength p) then map_option ToInt32 (maxLength p) else None)"
    using e by (cases "pattern p") (simp_all add: b e1 e2 set_pattern_def)
  show "pattern_attr (editor b) =
           (case pattern p of
              Some pt \<Rightarrow> if truthy pt \<and> singleLine p \<noteq> Some False then Some pt else None
            | None \<Rightarrow> None)"
    using e by (cases "pattern p") (simp_all add: b e1 e2 set_pattern_def)
  show "(tagName (editor b) = ''textarea'') = (singleLine p = Some False)"
    using e by (cases "pattern p") (simp_all add: b e1 e2 set_pattern_def)
  show "(tagName (editor b) = ''input'' \<and> type_attr (editor b) = ''text'')
           = (singleLine p \<noteq> Some False)"
    using e by (cases "pattern p") (simp_all add: b e1 e2 set_pattern_def)
  show "property b = p"
    using e by (simp add: b)
qed

lemma resolve_zero_length: "resolve w3c zero_length_property = Text_editor"
  by code_simp

text \<open>
  Claim C8.  For a property with \<^verbatim>\<open>maxLength\<close> 0 the factory builds a text editor
  whose control has no \<^verbatim>\<open>maxlength\<close>: the constructor tests the constraint for
  truthiness, and 0 is not truthy, so this constraint is present and not applied.
\<close>

theorem InputText_zero_maxLength:
  "snd (inputFactory w3c no_label zero_length_property)
     = map_sum id InputText (InputText_constructor zero_length_property)
   \<and> maxLength zero_length_property = Some 0
   \<and> map_sum id (\<lambda>b. maxlength_attr (editor b)) (InputText_constructor zero_length_property)
       = Inr None"
proof -
  have "maxLength zero_length_property = Some 0"
       "map_sum id (\<lambda>b. maxlength_attr (editor b)) (InputText_constructor zero_length_property)
          = Inr None"
    by code_simp+
  then show ?thesis by (simp add: inputFactory_builds resolve_zero_length examples_own_keys)
qed

text \<open>
  Claim C6, as stated, fails: a list whose first entry has the empty string as its
  lexical value.  Selecting that entry, the second choice of the selector and not the
  injected empty one, gives nothing.
\<close>

theorem InputList_empty_entry_counterexample:
  "selectedIndex (editor (select_choice 1 (new_InputList blank_property (Some [empty_entry]))))
     = Some 1
   \<and> InputList_toRDFObject w3c
       (select_choice 1 (new_InputList blank_property (Some [empty_entry]))) = None"
  by code_simp

text \<open>
  Claim C6, amended.  \<^verbatim>\<open>toRDFObject\<close> of a text editor and of a list editor returns
  nothing exactly when the value of the control is the empty string; otherwise it
  returns the named node of that value when the property has a class or the node kind
  \<^verbatim>\<open>sh:IRI\<close>, and the literal of that value with the datatype of the property when
  not.  In a list editor built from entries, the first choice is the injected empty
  one and has the empty value, and selecting entry \<open>i\<close> makes the lexical value of
  that entry the value of the control; so the result is nothing exactly when the
  selected choice is the injected one or an entry with an empty lexical value.
\<close>

theorem Text_List_toRDFObject:
  assumes "i < length entries"
  shows "InputText_toRDFObject c b =
           (if get_value (editor b) = [] then None
            else if class' (property b) \<noteq> None
                    \<or> nodeKind (property b) = Some (PREFIX_SHACL c @ ''IRI'')
                 then Some (NamedNode (get_value (editor b)))
                 else Some (DataFactory_literal (get_value (editor b))
                              (dataTypeArg (datatype' (property b)))))
       \<and> InputList_toRDFObject c l =
           (if get_value (editor l) = [] then None
            else if class' (property l) \<noteq> None
                    \<or> nodeKind (property l) = Some (PREFIX_SHACL c @ ''IRI'')
                 then Some (NamedNode (get_value (editor l)))
                 else Some (DataFactory_literal (get_value (editor l))
                              (dataTypeArg (datatype' (property l)))))
       \<and> get_value (editor (new_InputList p (Some entries))) = []
       \<and> get_value (editor (select_choice 0 (new_InputList p (Some entries)))) = []
       \<and> get_value (editor (select_choice (Suc i) (new_InputList p (Some entries))))
           = term_value (entry_value (entries ! i))
       \<and> property (select_choice (Suc i) (new_InputList p (Some entries))) = p"
proof -
  have s: "get_value (editor (select_choice (Suc i) (new_InputList p (Some entries))))
           = term_value (entry_value (entries ! i))"
    using assms by (simp add: select_choice_value new_InputList_editor entry_option_def)
  have z: "get_value (editor (select_choice 0 (new_InputList p (Some entries)))) = []"
    by (simp add: select_choice_value new_InputList_editor)
  have f: "get_value (editor (new_InputList p (Some entries))) = []"
    by (simp add: new_InputList_editor new_InputList_selected get_value_def)
  have pr: "property (select_choice (Suc i) (new_InputList p (Some entries))) = p"
    by (simp add: select_choice_def new_InputList_editor)
  show ?thesis
    using s z f pr
    by (simp add: InputText_toRDFObject_def InputList_toRDFObject_def truthy_def
        DataFactory_namedNode_def)
qed

theorem Text_List_toRDFObject_witness:
  "InputList_toRDFObject w3c
     (select_choice (Suc 1) (new_InputList color_property (Some color_entries)))
     = Some (NamedNode ''http://example.org/Blue'')"
proof -
  let ?l = "select_choice (Suc 1) (new_InputList color_property (Some color_entries))"
  have i: "1 < length color_entries" by (simp add: color_entries_def)
  have "class' color_property \<noteq> None"
    and "term_value (entry_value (color_entries ! 1)) = ''http://example.org/Blue''"
    by (simp_all add: color_property_def blank_property_def color_entries_def)
  with Text_List_toRDFObject [OF i, of w3c ?l ?l color_property]
  show ?thesis by simp
qed

section \<open>The date editor\<close>

lemma new_InputDate_is_date_editor: "is_date_editor c (new_InputDate c p)"
  by (simp add: is_date_editor_def new_InputDate_def InputBase_constructor_editor
      InputDate_createEditor_def createElement_def Let_def)

lemma InputDate_setValue_invalid:
  "new_Date Date_parse (term_value t) = None \<Longrightarrow>
   InputDate_setValue Date_parse b t = Inl RangeError"
  by (simp add: InputDate_setValue_def Date_toISOString_def)

lemma not_a_date: "new_Date (Date_parse_iso 0) ''next week'' = None"
  by code_simp

text \<open>
  \<^verbatim>\<open>setValue\<close> of a date editor: the exception for an invalid date, and otherwise
  the assignment of the truncated ISO string to the control, which sanitizes it.
\<close>

lemma InputDate_setValue_result:
  assumes "is_date_editor c b"
    and "n = (if datatype' (property b) = Some (PREFIX_XSD c @ ''dateTime'') then 19 else 10)"
  shows "case new_Date Date_parse (term_value t) of
           None \<Rightarrow> InputDate_setValue Date_parse b t = Inl RangeError
         | Some tv \<Rightarrow>
             InputDate_setValue Date_parse b t = Inr (user_types (take n (ISO_string tv)) b)
             \<and> get_value (editor (user_types (take n (ISO_string tv)) b))
                 = (if n = 19
                    then (case normalized_local_date_and_time (take n (ISO_string tv)) of
                            None \<Rightarrow> [] | Some s \<Rightarrow> s)
                    else if valid_date_string (take n (ISO_string tv))
                         then take n (ISO_string tv) else [])
             \<and> InputDate_toRDFObject (user_types (take n (ISO_string tv)) b) =
                 (if get_value (editor (user_types (take n (ISO_string tv)) b)) = [] then None
                  else Some (DataFactory_literal
                               (get_value (editor (user_types (take n (ISO_string tv)) b)))
                               (dataTypeArg (datatype' (property b)))))
             \<and> is_date_editor c (user_types (take n (ISO_string tv)) b)"
proof (cases "new_Date Date_parse (term_value t)")
  case None
  then show ?thesis by (simp add: InputDate_setValue_invalid)
next
  case (Some tv)
  let ?v = "take n (ISO_string tv)"
  have tag: "tagName (editor b) = ''input''" using assms(1) by (simp add: is_date_editor_def)
  have ty: "type_attr (editor b) = (if n = 19 then ''datetime-local'' else ''date'')"
    using assms by (simp add: is_date_editor_def)
  have lit: "term_value (DataFactory_literal s lod) = s" for s lod
    by (cases lod) simp_all
  have 1: "InputDate_setValue Date_parse b t = Inr (user_types ?v b)"
    using Some assms(2) ty
    by (simp add: InputDate_setValue_def Date_toISOString_def InputBase_setValue_def
        user_types_def lit Let_def)
  have 2: "get_value (editor (user_types ?v b))
      = (if n = 19
         then (case normalized_local_date_and_time ?v of None \<Rightarrow> [] | Some s \<Rightarrow> s)
         else if valid_date_string ?v then ?v else [])"
    using tag ty by (simp add: get_value_def user_types_def set_value_def sanitize_def)
  have 4: "InputDate_toRDFObject (user_types ?v b) =
      (if get_value (editor (user_types ?v b)) = [] then None
       else Some (DataFactory_literal (get_value (editor (user_types ?v b)))
                    (dataTypeArg (datatype' (property b)))))"
    by (simp add: InputDate_toRDFObject_def truthy_def user_types_def)
  have 5: "is_date_editor c (user_types ?v b)"
    using assms(1) by (simp add: is_date_editor_def user_types_def set_value_def)
  show ?thesis using Some 1 2 4 5 by simp
qed

lemma dateTime_editor_facts:
  "(19::nat) = (if datatype' (property (new_InputDate w3c dateTime_property))
                    = Some (PREFIX_XSD w3c @ ''dateTime'') then 19 else 10)"
  "(10::nat) = (if datatype' (property (new_InputDate w3c date_property))
                    = Some (PREFIX_XSD w3c @ ''dateTime'') then 19 else 10)"
  "datatype' (property (new_InputDate w3c dateTime_property))
     = Some ''http://www.w3.org/2001/XMLSchema#dateTime''"
  "datatype' (property (new_InputDate w3c date_property))
     = Some ''http://www.w3.org/2001/XMLSchema#date''"
  by code_simp+

lemma date_examples:
  "new_Date (Date_parse_iso 0) ''2024-01-15T10:30:00Z'' = Some 1705314600000"
  "take 19 (ISO_string 1705314600000) = ''2024-01-15T10:30:00''"
  "normalized_local_date_and_time ''2024-01-15T10:30:00'' = Some ''2024-01-15T10:30''"
  "new_Date (Date_parse_iso 3600000) ''2024-01-15T10:30:45.123Z'' = Some 1705314645123"
  "take 19 (ISO_string 1705314645123) = ''2024-01-15T10:30:45''"
  "take 10 (ISO_string 1705314645123) = ''2024-01-15''"
  "normalized_local_date_and_time ''2024-01-15T10:30:45'' = Some ''2024-01-15T10:30:45''"
  "valid_date_string ''2024-01-15''"
  "new_Date (Date_parse_iso 0) ''9999-12-31T23:59:59-01:00'' = Some 253402304399000"
  "normalized_local_date_and_time ''+010000-01-01T00:59'' = None"
  by code_simp+

lemma year_10000:
  "take 19 (ISO_string 253402304399000) = ''+010000-01-01T00:59''"
proof -
  have "civil_from_days (253402304399000 div msPerDay) = (10000, 1, 1)"
    "253402304399000 mod msPerDay = 3599000"
    by code_simp+
  moreover have "pad 2 (nat 1) = ''01''" "pad 2 (nat (3599000 div 3600000)) = ''00''"
    "pad 2 (nat (3599000 div 60000 mod 60)) = ''59''"
    by code_simp+
  moreover have "pad 6 10000 = ''010000''"
    by (simp add: pad_def String_of_nat.simps)
  ultimately show ?thesis
    by (simp add: ISO_string_def year_string_def)
qed

text \<open>
  Claim C5, as stated, fails, in two ways.  \<^verbatim>\<open>setValue\<close> of a date editor with a
  term whose lexical value is not a date throws a \<^verbatim>\<open>RangeError\<close> and sets no value.
  And the truncated string does not always become the value of the control: for
  \<^verbatim>\<open>2024-01-15T10:30:00Z\<close> the truncated string is \<^verbatim>\<open>2024-01-15T10:30:00\<close>, of 19
  characters, and the control that it is assigned to then holds
  \<^verbatim>\<open>2024-01-15T10:30\<close>, of 16 characters.
\<close>

theorem InputDate_setValue_counterexample:
  "InputDate_setValue (Date_parse_iso 0) (new_InputDate w3c dateTime_property)
     (Literal ''next week'' [] xsd_string) = Inl RangeError
   \<and> InputDate_setValue (Date_parse_iso 0) (new_InputDate w3c dateTime_property)
       (Literal ''2024-01-15T10:30:00Z'' [] ''http://www.w3.org/2001/XMLSchema#dateTime'')
     = Inr (user_types ''2024-01-15T10:30:00'' (new_InputDate w3c dateTime_property))
   \<and> get_value (editor (user_types ''2024-01-15T10:30:00''
                          (new_InputDate w3c dateTime_property)))
     = ''2024-01-15T10:30''"
proof -
  let ?t = "Literal ''2024-01-15T10:30:00Z'' [] ''http://www.w3.org/2001/XMLSchema#dateTime''"
  from InputDate_setValue_result
    [OF new_InputDate_is_date_editor dateTime_editor_facts(1), of "Date_parse_iso 0" ?t]
  show ?thesis
    by (simp add: InputDate_setValue_invalid not_a_date date_examples)
qed

text \<open>
  Claim C5, amended.  For every term whose lexical value the host parses to a valid
  date (a time value), \<^verbatim>\<open>setValue\<close> of a date editor assigns to the control the
  first 19 characters of the ISO string of that date (in UTC) when the datatype of
  the property is \<^verbatim>\<open>xsd:dateTime\<close>, and the first 10 characters otherwise, and
  changes nothing else of the editor.  The control sanitizes what it is assigned: a
  date-time control holds the normalized form of a valid local date and time string,
  which leaves out seconds that are zero, and a date control holds a valid date
  string; for any other string, such as one with a year of more than four digits or
  the year 0000, the control is empty.  \<^verbatim>\<open>toRDFObject\<close> then returns the literal of
  the value that the control holds, and nothing when the control is empty.  For a
  term whose lexical value is not a valid date, \<^verbatim>\<open>setValue\<close> throws a
  \<^verbatim>\<open>RangeError\<close>.
\<close>

theorem InputDate_setValue_truncates:
  assumes "is_date_editor c b"
    and "n = (if datatype' (property b) = Some (PREFIX_XSD c @ ''dateTime'') then 19 else 10)"
  shows "case new_Date Date_parse (term_value t) of
           None \<Rightarrow> InputDate_setValue Date_parse b t = Inl RangeError
         | Some tv \<Rightarrow>
             InputDate_setValue Date_parse b t = Inr (user_types (take n (ISO_string tv)) b)
             \<and> get_value (editor (user_types (take n (ISO_string tv)) b))
                 = (if n = 19
                    then (case normalized_local_date_and_time (take n (ISO_string tv)) of
                            None \<Rightarrow> [] | Some s \<Rightarrow> s)
                    else if valid_date_string (take n (ISO_string tv))
                         then take n (ISO_string tv) else [])
             \<and> InputDate_toRDFObject (user_types (take n (ISO_string tv)) b) =
                 (if get_value (editor (user_types (take n (ISO_string tv)) b)) = [] then None
                  else Some (DataFactory_literal
                               (get_value (editor (user_types (take n (ISO_string tv)) b)))
                               (dataTypeArg (datatype' (property b)))))
             \<and> is_date_editor c (user_types (take n (ISO_string tv)) b)"
  using assms by (rule InputDate_setValue_result)

theorem InputDate_setValue_truncates_witness:
  "map_sum id InputDate_toRDFObject
     (InputDate_setValue (Date_parse_iso 3600000) (new_InputDate w3c dateTime_property)
        (Literal ''2024-01-15T10:30:45.123Z'' [] ''http://www.w3.org/2001/XMLSchema#dateTime''))
   = Inr (Some (Literal ''2024-01-15T10:30:45'' [] ''http://www.w3.org/2001/XMLSchema#dateTime''))
   \<and> map_sum id InputDate_toRDFObject
     (InputDate_setValue (Date_parse_iso 0) (new_InputDate w3c dateTime_property)
        (Literal ''2024-01-15T10:30:00Z'' [] ''http://www.w3.org/2001/XMLSchema#dateTime''))
   = Inr (Some (Literal ''2024-01-15T10:30'' [] ''http://www.w3.org/2001/XMLSchema#dateTime''))
   \<and> map_sum id InputDate_toRDFObject
     (InputDate_setValue (Date_parse_iso 0) (new_InputDate w3c dateTime_property)
        (Literal ''9999-12-31T23:59:59-01:00'' []
           ''http://www.w3.org/2001/XMLSchema#dateTime''))
   = Inr None
   \<and> map_sum id InputDate_toRDFObject
     (InputDate_setValue (Date_parse_iso 3600000) (new_InputDate w3c date_property)
        (Literal ''2024-01-15T10:30:45.123Z'' [] ''http://www.w3.org/2001/XMLSchema#dateTime''))
   = Inr (Some (Literal ''2024-01-15'' [] ''http://www.w3.org/2001/XMLSchema#date''))"
proof -
  let ?dt = "''http://www.w3.org/2001/XMLSchema#dateTime''"
  note w = InputDate_setValue_truncates [OF new_InputDate_is_date_editor]
  have 1: "map_sum id InputDate_toRDFObject
     (InputDate_setValue (Date_parse_iso 3600000) (new_InputDate w3c dateTime_property)
        (Literal ''2024-01-15T10:30:45.123Z'' [] ?dt))
   = Inr (Some (Literal ''2024-01-15T10:30:45'' [] ?dt))"
    using w [OF dateTime_editor_facts(1), of "Date_parse_iso 3600000"
        "Literal ''2024-01-15T10:30:45.123Z'' [] ?dt"]
    by (simp add: date_examples dateTime_editor_facts(3) dataTypeArg_def)
  have 2: "map_sum id InputDate_toRDFObject
     (InputDate_setValue (Date_parse_iso 0) (new_InputDate w3c dateTime_property)
        (Literal ''2024-01-15T10:30:00Z'' [] ?dt))
   = Inr (Some (Literal ''2024-01-15T10:30'' [] ?dt))"
    using w [OF dateTime_editor_facts(1), of "Date_parse_iso 0"
        "Literal ''2024-01-15T10:30:00Z'' [] ?dt"]
    by (simp add: date_examples dateTime_editor_facts(3) dataTypeArg_def)
  have 3: "map_sum id InputDate_toRDFObject
     (InputDate_setValue (Date_parse_iso 0) (new_InputDate w3c dateTime_property)
        (Literal ''9999-12-31T23:59:59-01:00'' [] ?dt))
   = Inr None"
    using w [OF dateTime_editor_facts(1), of "Date_parse_iso 0"
        "Literal ''9999-12-31T23:59:59-01:00'' [] ?dt"]
    by (simp add: date_examples year_10000 dateTime_editor_facts(3) dataTypeArg_def)
  have 4: "map_sum id InputDate_toRDFObject
     (InputDate_setValue (Date_parse_iso 3600000) (new_InputDate w3c date_property)
        (Literal ''2024-01-15T10:30:45.123Z'' [] ?dt))
   = Inr (Some (Literal ''2024-01-15'' [] ''http://www.w3.org/2001/XMLSchema#date''))"
    using w [OF dateTime_editor_facts(2), of "Date_parse_iso 3600000"
        "Literal ''2024-01-15T10:30:45.123Z'' [] ?dt"]
    by (simp add: date_examples dateTime_editor_facts(4) dataTypeArg_def)
  show ?thesis using 1 2 3 4 by simp
qed

end
